theory Spec2Isabelle
  imports Complex_Main "HOL-Library.AList"
begin

section \<open>Python values, exceptions and string primitives\<close>

text \<open>
  The two services (\<^verbatim>\<open>src/app/main.py\<close>, the poller, and \<^verbatim>\<open>src/app2/main.py\<close>, the
  catcher) are straight-line Python scripts. Strings are modelled as \<^typ>\<open>string\<close>; a
  character stands for a code point below 256. Python's unbounded integers are \<^typ>\<open>int\<close>.

  An exception is a value: whether it is an instance of \<^verbatim>\<open>Exception\<close> (what
  \<^verbatim>\<open>except Exception\<close> catches; \<^verbatim>\<open>KeyboardInterrupt\<close> and \<^verbatim>\<open>SystemExit\<close> are not), its
  \<^verbatim>\<open>type(e).__name__\<close> and its \<^verbatim>\<open>str(e)\<close>.
\<close>

datatype pyexc = PyExc (is_Exception: bool) (type_name: string) (str_exc: string)

text \<open>The values \<^verbatim>\<open>response.json()\<close> can return, and what the program passes to the SDK.\<close>

datatype pyval =
    PNone
  | PBool bool
  | PInt int
  | PFloat real
  | PStr string
  | PList "pyval list"
  | PDict "(string \<times> pyval) list"

text \<open>\<^verbatim>\<open>str.isspace\<close> on one character, for code points below 256.\<close>

definition isspace :: "char \<Rightarrow> bool" where
  "isspace c =
     (let n = (of_char c :: nat)
      in (9 \<le> n \<and> n \<le> 13) \<or> (28 \<le> n \<and> n \<le> 32) \<or> n = 133 \<or> n = 160)"

text \<open>\<^verbatim>\<open>s.strip()\<close>: leading and trailing whitespace removed.\<close>

definition strip :: "string \<Rightarrow> string" where
  "strip s = rev (dropWhile isspace (rev (dropWhile isspace s)))"

text \<open>
  \<^verbatim>\<open>s.split(sep)\<close> for a one-character separator: every occurrence splits, and the result
  always has at least one element (\<^verbatim>\<open>''.split(',') == ['']\<close>).
\<close>

fun split :: "char \<Rightarrow> string \<Rightarrow> string list" where
  "split sep [] = [[]]"
| "split sep (c # cs) =
     (if c = sep then [] # split sep cs
      else (case split sep cs of
              [] \<Rightarrow> [[c]]
            | w # ws \<Rightarrow> (c # w) # ws))"

text \<open>\<^verbatim>\<open>s.split(sep, 1)\<close>: split at the first occurrence only; one element when there is none.\<close>

definition split1 :: "char \<Rightarrow> string \<Rightarrow> string list" where
  "split1 sep s =
     (if sep \<in> set s
      then [takeWhile (\<lambda>c. c \<noteq> sep) s, tl (dropWhile (\<lambda>c. c \<noteq> sep) s)]
      else [s])"

text \<open>The decimal digits of a natural number, most significant first.\<close>

fun digits10 :: "nat \<Rightarrow> string" where
  "digits10 n =
     (if n < 10 then [''0123456789'' ! n]
      else digits10 (n div 10) @ [''0123456789'' ! (n mod 10)])"

declare digits10.simps [simp del]

text \<open>\<^verbatim>\<open>str(i)\<close>, also what an f-string \<^verbatim>\<open>{i}\<close> renders, for an integer.\<close>

definition str_int :: "int \<Rightarrow> string" where
  "str_int i = (if i < 0 then CHR ''-'' # digits10 (nat (- i)) else digits10 (nat i))"

text \<open>
  The tuple assignment \<^verbatim>\<open>key, value = xs\<close>: \<^verbatim>\<open>ValueError\<close> unless \<^verbatim>\<open>xs\<close> has exactly two
  elements.
\<close>

definition unpack2 :: "string list \<Rightarrow> pyexc + (string \<times> string)" where
  "unpack2 xs =
     (case xs of
        [a, b] \<Rightarrow> Inr (a, b)
      | a # b # c # r \<Rightarrow> Inl (PyExc True ''ValueError'' ''too many values to unpack (expected 2)'')
      | _ \<Rightarrow> Inl (PyExc True ''ValueError''
                 (''not enough values to unpack (expected 2, got '' @ str_int (int (length xs)) @ '')'')))"

section \<open>Resource attributes (both services, lines 36--48)\<close>

text \<open>
  A dict is an association list with \<^const>\<open>AList.update\<close>: an existing key is
  overwritten in place, a new key is appended, as a Python dict does.
\<close>

type_synonym attrs = "(string \<times> string) list"

datatype level = INFO | WARNING | ERROR

text \<open>
  The body of the \<^verbatim>\<open>for pair in resource_env_vars.split(',')\<close> loop, run inside the
  \<^verbatim>\<open>try\<close>: the dict is mutated in place, so what was stored before a raise stays stored.
  The result is the dict and the exception that ended the loop, if any.
\<close>

fun for_pairs :: "string list \<Rightarrow> attrs \<Rightarrow> attrs \<times> pyexc option" where
  "for_pairs [] ra = (ra, None)"
| "for_pairs (pair # rest) ra =
     (case unpack2 (split1 CHR ''='' pair) of
        Inl e \<Rightarrow> (ra, Some e)
      | Inr (key, val) \<Rightarrow> for_pairs rest (AList.update (strip key) (strip val) ra))"

text \<open>
  Lines 40--48 on a dict \<open>ra\<close> already holding the defaults: returns the dict and the
  warnings logged. The \<^verbatim>\<open>try\<close> is around the whole loop; the only exception the loop
  raises is the \<^verbatim>\<open>ValueError\<close> of the tuple assignment, which \<^verbatim>\<open>except Exception\<close>
  catches, so nothing propagates and the result has no error component.
\<close>

definition parse_resource_env_vars :: "attrs \<Rightarrow> string \<Rightarrow> attrs \<times> (level \<times> string) list" where
  "parse_resource_env_vars ra resource_env_vars =
     (if resource_env_vars \<noteq> []
      then (case for_pairs (split CHR '','' resource_env_vars) ra of
              (ra', None) \<Rightarrow> (ra', [])
            | (ra', Some e) \<Rightarrow>
                (ra', [(WARNING, ''Could not parse OTEL_RESOURCE_ATTRIBUTES='' @ [CHR 0x27]
                          @ resource_env_vars @ [CHR 0x27] @ '': '' @ str_exc e)]))
      else (ra, []))"

definition SERVICE_NAME :: string where
  "SERVICE_NAME = ''service.name''"

definition DEPLOYMENT_ENVIRONMENT :: string where
  "DEPLOYMENT_ENVIRONMENT = ''deployment.environment''"

text \<open>Lines 36--48: the defaults, then the overrides.\<close>

definition resource_attributes :: "string \<Rightarrow> string \<Rightarrow> string \<Rightarrow> attrs \<times> (level \<times> string) list" where
  "resource_attributes service_name deployment_environment resource_env_vars =
     parse_resource_env_vars
       (AList.update DEPLOYMENT_ENVIRONMENT deployment_environment
          (AList.update SERVICE_NAME service_name []))
       resource_env_vars"

section \<open>Telemetry calls as a trace\<close>

text \<open>
  The tracer, the meter, the logger, the HTTP session and the clock are external. The
  model records, in order, the calls the program makes on them; what the SDK does with a
  call is outside the repository. None of the SDK and logging calls raises.
\<close>

datatype span_status = StatusOK | StatusERROR string

datatype event =
    SpanStart string
  | SpanEnd
  | SetAttribute string pyval
  | SetStatus span_status
  | RecordException pyexc
  | CounterAdd string int "(string \<times> pyval) list"
  | Log level string
  | LogJson level pyval
  | PrintJson pyval
  | HttpGet string int
  | Sleep int

text \<open>
  \<^verbatim>\<open>Log l s\<close> is \<^verbatim>\<open>logger.<l>(s)\<close>, \<^verbatim>\<open>LogJson l v\<close> is \<^verbatim>\<open>logger.<l>(json.dumps(v))\<close>,
  \<^verbatim>\<open>PrintJson v\<close> is \<^verbatim>\<open>print(json.dumps(v), flush=True)\<close>, \<^verbatim>\<open>HttpGet url t\<close> is
  \<^verbatim>\<open>session.get(url, timeout=t)\<close>, \<^verbatim>\<open>CounterAdd name n labels\<close> is \<^verbatim>\<open>counter.add(n, labels)\<close>
  on the counter created under that name.
\<close>

subsection \<open>Reading a trace\<close>

fun counter_adds :: "string \<Rightarrow> event list \<Rightarrow> (int \<times> (string \<times> pyval) list) list" where
  "counter_adds name [] = []"
| "counter_adds name (CounterAdd c n labels # tr) =
     (if c = name then (n, labels) # counter_adds name tr else counter_adds name tr)"
| "counter_adds name (ev # tr) = counter_adds name tr"

fun statuses :: "event list \<Rightarrow> span_status list" where
  "statuses [] = []"
| "statuses (SetStatus st # tr) = st # statuses tr"
| "statuses (ev # tr) = statuses tr"

fun recorded_exceptions :: "event list \<Rightarrow> pyexc list" where
  "recorded_exceptions [] = []"
| "recorded_exceptions (RecordException e # tr) = e # recorded_exceptions tr"
| "recorded_exceptions (ev # tr) = recorded_exceptions tr"

fun sleeps :: "event list \<Rightarrow> int list" where
  "sleeps [] = []"
| "sleeps (Sleep n # tr) = n # sleeps tr"
| "sleeps (ev # tr) = sleeps tr"

fun requests :: "event list \<Rightarrow> (string \<times> int) list" where
  "requests [] = []"
| "requests (HttpGet url t # tr) = (url, t) # requests tr"
| "requests (ev # tr) = requests tr"

text \<open>The label sets of all counter increments of a trace, whatever the counter.\<close>

fun counter_labels :: "event list \<Rightarrow> (string \<times> pyval) list list" where
  "counter_labels [] = []"
| "counter_labels (CounterAdd c n labels # tr) = labels # counter_labels tr"
| "counter_labels (ev # tr) = counter_labels tr"

text \<open>The attributes a span holds after the calls of a trace: the last write of a key wins.\<close>

fun span_attributes :: "event list \<Rightarrow> (string \<times> pyval) list \<Rightarrow> (string \<times> pyval) list" where
  "span_attributes [] al = al"
| "span_attributes (SetAttribute k v # tr) al = span_attributes tr (AList.update k v al)"
| "span_attributes (ev # tr) al = span_attributes tr al"

text \<open>
  The number of spans open after a trace that starts with \<open>n\<close> spans open; \<open>None\<close> when
  the trace ends a span that is not open.
\<close>

fun open_spans :: "event list \<Rightarrow> nat \<Rightarrow> nat option" where
  "open_spans [] n = Some n"
| "open_spans (SpanStart name # tr) n = open_spans tr (Suc n)"
| "open_spans (SpanEnd # tr) n = (case n of 0 \<Rightarrow> None | Suc m \<Rightarrow> open_spans tr m)"
| "open_spans (ev # tr) n = open_spans tr n"

fun is_span_event :: "event \<Rightarrow> bool" where
  "is_span_event (SpanStart name) = True"
| "is_span_event SpanEnd = True"
| "is_span_event ev = False"

section \<open>The poller (\<^verbatim>\<open>src/app/main.py\<close>, lines 75--152)\<close>

definition pokemon_fetch_counter :: string where
  "pokemon_fetch_counter = ''pokemon.fetch.count''"

definition pokemon_fetch_success_counter :: string where
  "pokemon_fetch_success_counter = ''pokemon.fetch.success''"

definition pokemon_fetch_error_counter :: string where
  "pokemon_fetch_error_counter = ''pokemon.fetch.error''"

text \<open>
  What the outside world answers in one iteration: the entropy \<^verbatim>\<open>random.randint\<close> draws
  from; the outcome of \<^verbatim>\<open>session.get\<close>: an exception, or a response with its status code
  and what \<^verbatim>\<open>response.json()\<close> does on it (raise, or return a value); and what the
  operating system does with the sleep of the \<^verbatim>\<open>finally\<close> clause when the interpreter
  passes it on: \<open>None\<close> when it sleeps, or the exception it ends with (\<^verbatim>\<open>OSError\<close> where
  the clock cannot hold the deadline, as Linux answers for lengths just below the
  interpreter's own bound; \<^verbatim>\<open>KeyboardInterrupt\<close> on a signal).
\<close>

record response =
  status_code :: int
  json :: "pyexc + pyval"

record env =
  entropy :: nat
  get :: "pyexc + response"
  sleep_raises :: "pyexc option"

text \<open>\<^verbatim>\<open>random.randint(a, b)\<close>: an integer of the inclusive range, chosen by the entropy.\<close>

definition randint :: "int \<Rightarrow> int \<Rightarrow> nat \<Rightarrow> int" where
  "randint a b r = a + int (r mod nat (b - a + 1))"

definition py_type :: "pyval \<Rightarrow> string" where
  "py_type v =
     (case v of
        PNone \<Rightarrow> ''NoneType''
      | PBool b \<Rightarrow> ''bool''
      | PInt i \<Rightarrow> ''int''
      | PFloat x \<Rightarrow> ''float''
      | PStr s \<Rightarrow> ''str''
      | PList xs \<Rightarrow> ''list''
      | PDict kvs \<Rightarrow> ''dict'')"

text \<open>
  \<^verbatim>\<open>data.get(key, default)\<close>: only a dict has the method; on any other value the attribute
  lookup raises \<^verbatim>\<open>AttributeError\<close>.
\<close>

definition dict_get :: "pyval \<Rightarrow> string \<Rightarrow> pyval \<Rightarrow> pyexc + pyval" where
  "dict_get data key dflt =
     (case data of
        PDict kvs \<Rightarrow> Inr (case map_of kvs key of Some v \<Rightarrow> v | None \<Rightarrow> dflt)
      | _ \<Rightarrow> Inl (PyExc True ''AttributeError''
                 ([CHR 0x27] @ py_type data @ [CHR 0x27] @ '' object has no attribute ''
                  @ [CHR 0x27] @ ''get'' @ [CHR 0x27])))"

text \<open>Line 101: the value \<^verbatim>\<open>pokemon_id\<close> holds before the \<^verbatim>\<open>try\<close> block assigns the drawn one.\<close>

definition initial_pokemon_id :: int where
  "initial_pokemon_id = 0"

text \<open>
  Lines 103--138, the \<^verbatim>\<open>try\<close> block, entered with \<^verbatim>\<open>pokemon_id = pokemon_id0\<close>. The
  result is the value of \<^verbatim>\<open>pokemon_id\<close> on leaving the block, the calls made, and the
  exception that left the block, if any.
\<close>

definition try_block :: "env \<Rightarrow> int \<Rightarrow> int \<times> event list \<times> pyexc option" where
  "try_block w pokemon_id0 =
     (let pokemon_id = randint 1 300 (entropy w);
          url = ''https://pokeapi.co/api/v2/pokemon/'' @ str_int pokemon_id;
          tr1 = [SetAttribute ''pokemon.id.attempted'' (PInt pokemon_id),
                 CounterAdd pokemon_fetch_counter 1 [(''pokemon.id'', PStr (str_int pokemon_id))],
                 LogJson INFO (PDict [(''message'', PStr (''fetching number '' @ str_int pokemon_id))]),
                 HttpGet url 5]
      in case get w of
           Inl e \<Rightarrow> (pokemon_id, tr1, Some e)
         | Inr response \<Rightarrow>
             (let status = status_code response;
                  tr2 = tr1 @ [SetAttribute ''http.status_code'' (PInt status)]
              in if status = 200
                 then (case json response of
                         Inl e \<Rightarrow> (pokemon_id, tr2, Some e)
                       | Inr data \<Rightarrow>
                           (case dict_get data ''name'' (PStr ''unknown'') of
                              Inl e \<Rightarrow> (pokemon_id, tr2, Some e)
                            | Inr pokemon_name \<Rightarrow>
                                (pokemon_id,
                                 tr2 @ [SetAttribute ''pokemon.name'' pokemon_name,
                                        SetStatus StatusOK,
                                        CounterAdd pokemon_fetch_success_counter 1
                                          [(''pokemon.id'', PStr (str_int pokemon_id)),
                                           (''pokemon.name'', pokemon_name)],
                                        LogJson INFO
                                          (PDict [(''pokemon_id'', PInt pokemon_id),
                                                  (''pokemon_name'', pokemon_name),
                                                  (''status'', PInt 200)])],
                                 None)))
                 else (let error_message = ''HTTP '' @ str_int status
                       in (pokemon_id,
                           tr2 @ [SetAttribute ''error.message'' (PStr error_message),
                                  SetStatus (StatusERROR
                                    (''PokeAPI request failed with status '' @ str_int status)),
                                  CounterAdd pokemon_fetch_error_counter 1
                                    [(''pokemon.id'', PStr (str_int pokemon_id)),
                                     (''http.status_code'', PStr (str_int status))],
                                  LogJson WARNING
                                    (PDict [(''pokemon_id'', PInt pokemon_id),
                                            (''error'', PStr error_message),
                                            (''status'', PInt status)])],
                           None))))"

text \<open>Lines 140--149, the \<^verbatim>\<open>except Exception as e\<close> block.\<close>

definition except_block :: "int \<Rightarrow> pyexc \<Rightarrow> event list" where
  "except_block pokemon_id e =
     [Log ERROR (''Exception during fetch for ID '' @ str_int pokemon_id @ '': '' @ str_exc e),
      RecordException e,
      SetStatus (StatusERROR (''Exception: '' @ str_exc e)),
      CounterAdd pokemon_fetch_error_counter 1
        [(''pokemon.id'', PStr (str_int pokemon_id)), (''exception.type'', PStr (type_name e))],
      PrintJson (PDict [(''pokemon_id'', PInt pokemon_id), (''error'', PStr (str_exc e))])]"

text \<open>
  The Work Unit: \<^verbatim>\<open>pokemon_id = 0\<close>, the \<^verbatim>\<open>try\<close> block and its \<^verbatim>\<open>except Exception\<close>
  clause. The second component is the exception still in flight afterwards: one that is
  not an instance of \<^verbatim>\<open>Exception\<close> is not caught.
\<close>

definition work_unit :: "env \<Rightarrow> event list \<times> pyexc option" where
  "work_unit w =
     (case try_block w initial_pokemon_id of
        (pokemon_id, tr, None) \<Rightarrow> (tr, None)
      | (pokemon_id, tr, Some e) \<Rightarrow>
          (if is_Exception e then (tr @ except_block pokemon_id e, None) else (tr, Some e)))"

text \<open>
  \<^verbatim>\<open>time.sleep(secs)\<close> on an integer. A negative length raises \<^verbatim>\<open>ValueError\<close>. The
  interpreter keeps the length in nanoseconds in a signed 64-bit number, so a length above
  \<open>9223372036\<close> seconds (the largest whole number of seconds below 2 to the power 63 nanoseconds)
  raises \<^verbatim>\<open>OverflowError\<close>. Any other length goes to the operating system, whose answer
  is the second argument. Nothing is slept when the call raises.
\<close>

definition sleep :: "int \<Rightarrow> pyexc option \<Rightarrow> event list \<times> pyexc option" where
  "sleep secs os_answer =
     (if secs < 0
      then ([], Some (PyExc True ''ValueError'' ''sleep length must be non-negative''))
      else if 9223372036 < secs
      then ([], Some (PyExc True ''OverflowError''
                        ''timestamp too large to convert to C _PyTime_t''))
      else (case os_answer of
              Some e \<Rightarrow> ([], Some e)
            | None \<Rightarrow> ([Sleep secs], None)))"

text \<open>
  Lines 100--152, the body of \<^verbatim>\<open>while True\<close>: the \<^verbatim>\<open>with\<close> statement starts the span and
  ends it however its body is left; the \<^verbatim>\<open>finally\<close> clause sleeps after the Work Unit,
  whether or not an exception is in flight, and an exception raised by the \<^verbatim>\<open>finally\<close>
  clause replaces the one in flight. The second component is the exception that leaves
  the \<^verbatim>\<open>with\<close> statement, if any.
\<close>

definition loop_body :: "int \<Rightarrow> env \<Rightarrow> event list \<times> pyexc option" where
  "loop_body INTERVAL_SEC w =
     (case work_unit w of
        (tr, in_flight) \<Rightarrow>
          (case sleep INTERVAL_SEC (sleep_raises w) of
             (tr_sleep, None) \<Rightarrow>
               (SpanStart ''fetch_pokemon_loop'' # tr @ tr_sleep @ [SpanEnd], in_flight)
           | (tr_sleep, Some e) \<Rightarrow>
               (SpanStart ''fetch_pokemon_loop'' # tr @ tr_sleep @ [SpanEnd], Some e)))"

text \<open>
  Lines 99--152, \<^verbatim>\<open>while True\<close>, run against the answers of the outside world for as many
  iterations as the list holds. The second component is \<open>None\<close> while the loop is still
  running, and the exception that ended the loop (and the process) otherwise.
\<close>

fun while_True :: "int \<Rightarrow> env list \<Rightarrow> event list \<times> pyexc option" where
  "while_True INTERVAL_SEC [] = ([], None)"
| "while_True INTERVAL_SEC (w # ws) =
     (case loop_body INTERVAL_SEC w of
        (tr, Some e) \<Rightarrow> (tr, Some e)
      | (tr, None) \<Rightarrow>
          (case while_True INTERVAL_SEC ws of (tr', r) \<Rightarrow> (tr @ tr', r)))"

section \<open>The catcher (\<^verbatim>\<open>src/app2/main.py\<close>, lines 71--120)\<close>

definition pokemon_catch_attempt_counter :: string where
  "pokemon_catch_attempt_counter = ''pokemon.catch.attempts''"

definition pokemon_catch_success_counter :: string where
  "pokemon_catch_success_counter = ''pokemon.catch.success''"

definition pokemon_catch_failure_counter :: string where
  "pokemon_catch_failure_counter = ''pokemon.catch.failures''"

text \<open>What \<^verbatim>\<open>jsonify(v)\<close> returns from a view: a response with status 200 and body \<open>v\<close>.\<close>

record flask_response =
  http_status :: int
  json_body :: pyval

definition jsonify :: "pyval \<Rightarrow> flask_response" where
  "jsonify v = \<lparr>http_status = 200, json_body = v\<rparr>"

text \<open>
  Lines 100--120, the view \<^verbatim>\<open>catch(pkmn_id)\<close>. The second argument is the number
  \<^verbatim>\<open>random.random()\<close> returns; the comparison with \<^verbatim>\<open>0.5\<close> is exact. The calls go to the
  request span the Flask instrumentation opened.
\<close>

definition catch :: "int \<Rightarrow> real \<Rightarrow> flask_response \<times> event list" where
  "catch pkmn_id random =
     (let caught = (random < 0.5);
          log = PDict [(''pokemon_id'', PInt pkmn_id), (''caught'', PBool caught)]
      in (jsonify log,
          [SetAttribute ''pokemon.id.caught'' (PInt pkmn_id),
           SetAttribute ''pokemon.caught_result'' (PBool caught),
           CounterAdd pokemon_catch_attempt_counter 1 [(''pokemon.id'', PStr (str_int pkmn_id))]]
          @ (if caught
             then [CounterAdd pokemon_catch_success_counter 1
                     [(''pokemon.id'', PStr (str_int pkmn_id))]]
             else [CounterAdd pokemon_catch_failure_counter 1
                     [(''pokemon.id'', PStr (str_int pkmn_id))]])
          @ [LogJson INFO log]))"

text \<open>
  Line 100, \<^verbatim>\<open>@app.route("/catch/<int:pkmn_id>")\<close>. The \<^verbatim>\<open>int\<close> converter of the routing
  library takes the one path segment after \<^verbatim>\<open>/catch/\<close> (a text with no slash in it). It
  accepts one or more decimal digits, so a sign, a blank or an empty segment is no match
  and the request is answered 404 without the view being called; below code point 256
  the digits are \<^verbatim>\<open>0\<close> to \<^verbatim>\<open>9\<close>. A match is converted by \<^verbatim>\<open>int(value)\<close>, which raises
  \<^verbatim>\<open>ValueError\<close> on more digits than \<^verbatim>\<open>sys.get_int_max_str_digits()\<close> allows (4300 by
  default from Python 3.11 on; 0 where there is no limit); that exception is not a
  routing error, and the view is not called.
\<close>

definition isdigit :: "char \<Rightarrow> bool" where
  "isdigit c = (let n = (of_char c :: nat) in 48 \<le> n \<and> n \<le> 57)"

text \<open>\<^verbatim>\<open>int(value)\<close> on a string of decimal digits, read left to right.\<close>

definition int_of_digits :: "string \<Rightarrow> int" where
  "int_of_digits value = foldl (\<lambda>a c. 10 * a + (int (of_char c) - 48)) 0 value"

datatype routing = Matched int | NotFound | Unhandled pyexc

definition int_converter :: "nat \<Rightarrow> string \<Rightarrow> routing" where
  "int_converter max_str_digits value =
     (if value \<noteq> [] \<and> list_all isdigit value
      then (if max_str_digits \<noteq> 0 \<and> max_str_digits < length value
            then Unhandled (PyExc True ''ValueError''
                   (''Exceeds the limit ('' @ str_int (int max_str_digits)
                    @ '' digits) for integer string conversion: value has ''
                    @ str_int (int (length value))
                    @ '' digits; use sys.set_int_max_str_digits() to increase the limit''))
            else Matched (int_of_digits value))
      else NotFound)"

text \<open>
  A request \<^verbatim>\<open>GET /catch/<value>\<close>. Where the segment matches and converts, the result is
  the response and the telemetry calls of the view; where it does not match, it is the
  404 response of the framework, which carries no JSON body, and no call of the view;
  where the conversion raises, it is that exception, and what the framework answers for
  it is outside the repository.
\<close>

definition get_catch ::
  "nat \<Rightarrow> string \<Rightarrow> real \<Rightarrow> pyexc + (flask_response \<times> event list)" where
  "get_catch max_str_digits value random =
     (case int_converter max_str_digits value of
        Matched pkmn_id \<Rightarrow> Inr (catch pkmn_id random)
      | NotFound \<Rightarrow> Inr (\<lparr>http_status = 404, json_body = PNone\<rparr>, [])
      | Unhandled e \<Rightarrow> Inl e)"

section \<open>The resolver as the specification words it\<close>

text \<open>
  The specification describes resolution pair by pair: a pair is well formed when it
  holds an \<^verbatim>\<open>=\<close>; it is split at the first \<^verbatim>\<open>=\<close> and both sides are trimmed; the
  overrides are laid over the defaults, a later pair winning over an earlier one with
  the same key.
\<close>

definition well_formed :: "string \<Rightarrow> bool" where
  "well_formed pair = (CHR ''='' \<in> set pair)"

definition override_of :: "string \<Rightarrow> string \<times> string" where
  "override_of pair =
     (strip (takeWhile (\<lambda>c. c \<noteq> CHR ''='') pair),
      strip (tl (dropWhile (\<lambda>c. c \<noteq> CHR ''='') pair)))"

definition merged :: "attrs \<Rightarrow> (string \<times> string) list \<Rightarrow> string \<rightharpoonup> string" where
  "merged defaults overrides = map_of defaults ++ map_of (rev overrides)"

section \<open>Example answers of the outside world\<close>

definition timeout_env :: env where
  "timeout_env =
     \<lparr>entropy = 24,
      get = Inl (PyExc True ''ConnectTimeout'' ''connection to pokeapi.co timed out''),
      sleep_raises = None\<rparr>"

definition not_found_env :: env where
  "not_found_env =
     \<lparr>entropy = 24,
      get = Inr \<lparr>status_code = 404,
                 json = Inl (PyExc True ''JSONDecodeError'' ''Expecting value'')\<rparr>,
      sleep_raises = None\<rparr>"

definition pikachu_env :: env where
  "pikachu_env =
     \<lparr>entropy = 24,
      get = Inr \<lparr>status_code = 200,
                 json = Inr (PDict [(''id'', PInt 25), (''name'', PStr ''pikachu'')])\<rparr>,
      sleep_raises = None\<rparr>"

definition bad_body_env :: env where
  "bad_body_env =
     \<lparr>entropy = 24,
      get = Inr \<lparr>status_code = 200,
                 json = Inl (PyExc True ''JSONDecodeError'' ''Expecting value'')\<rparr>,
      sleep_raises = None\<rparr>"

definition nameless_env :: env where
  "nameless_env =
     \<lparr>entropy = 599, get = Inr \<lparr>status_code = 200, json = Inr (PDict [(''id'', PInt 300)])\<rparr>,
      sleep_raises = None\<rparr>"

definition uncaught_env :: env where
  "uncaught_env =
     \<lparr>entropy = 299, get = Inl (PyExc False ''KeyboardInterrupt'' []),
      sleep_raises = None\<rparr>"

definition clock_full_env :: env where
  "clock_full_env =
     \<lparr>entropy = 24,
      get = Inr \<lparr>status_code = 200,
                 json = Inr (PDict [(''id'', PInt 25), (''name'', PStr ''pikachu'')])\<rparr>,
      sleep_raises = Some (PyExc True ''OSError'' ''[Errno 22] Invalid argument'')\<rparr>"

section \<open>Properties of the resolver\<close>

lemma str_int_1: "str_int 1 = ''1''"
  by (simp add: str_int_def digits10.simps)

lemma unpack2_well_formed:
  "well_formed pair \<Longrightarrow>
     unpack2 (split1 CHR ''='' pair) =
       Inr (takeWhile (\<lambda>c. c \<noteq> CHR ''='') pair, tl (dropWhile (\<lambda>c. c \<noteq> CHR ''='') pair))"
  by (simp add: well_formed_def unpack2_def split1_def)

lemma unpack2_malformed:
  "\<not> well_formed pair \<Longrightarrow>
     unpack2 (split1 CHR ''='' pair) =
       Inl (PyExc True ''ValueError'' ''not enough values to unpack (expected 2, got 1)'')"
  by (simp add: well_formed_def unpack2_def split1_def str_int_1)

lemma map_of_update_add:
  "map_of (AList.update k v ra) ++ map_of (rev ovs) = map_of ra ++ map_of (rev ((k, v) # ovs))"
  by (simp add: update_conv' map_add_assoc)

lemma for_pairs_step:
  assumes "well_formed p"
  shows "for_pairs (p # ps) ra =
           for_pairs ps (AList.update (fst (override_of p)) (snd (override_of p)) ra)"
  by (simp add: unpack2_well_formed [OF assms] override_of_def)

text \<open>When every pair is well formed the loop ends normally with all of them applied.\<close>

lemma for_pairs_well_formed:
  "list_all well_formed ps \<Longrightarrow>
     snd (for_pairs ps ra) = None \<and>
     map_of (fst (for_pairs ps ra)) = map_of ra ++ map_of (rev (map override_of ps))"
proof (induction ps arbitrary: ra)
  case Nil
  show ?case by simp
next
  case (Cons p ps)
  from Cons.prems have wf: "well_formed p" and rest: "list_all well_formed ps"
    by simp_all
  show ?case
    unfolding for_pairs_step [OF wf]
    using Cons.IH [OF rest]
      map_of_update_add [of "fst (override_of p)" "snd (override_of p)" ra "map override_of ps"]
    by (simp add: rev_map)
qed

text \<open>The first malformed pair ends the loop: what came before is stored, the rest is not read.\<close>

lemma for_pairs_malformed:
  "list_all well_formed pre \<Longrightarrow> \<not> well_formed bad \<Longrightarrow>
     snd (for_pairs (pre @ bad # post) ra) =
       Some (PyExc True ''ValueError'' ''not enough values to unpack (expected 2, got 1)'') \<and>
     map_of (fst (for_pairs (pre @ bad # post) ra)) =
       map_of ra ++ map_of (rev (map override_of pre))"
proof (induction pre arbitrary: ra)
  case Nil
  then show ?case by (simp add: unpack2_malformed)
next
  case (Cons p ps)
  from Cons.prems have wf: "well_formed p" and rest: "list_all well_formed ps"
    by simp_all
  have step: "for_pairs ((p # ps) @ bad # post) ra =
      for_pairs (ps @ bad # post) (AList.update (fst (override_of p)) (snd (override_of p)) ra)"
    using for_pairs_step [OF wf] by simp
  show ?case
    unfolding step
    using Cons.IH [OF rest Cons.prems(2)]
      map_of_update_add [of "fst (override_of p)" "snd (override_of p)" ra "map override_of ps"]
    by (simp add: rev_map)
qed

lemmas resolver_defs =
  resource_attributes_def parse_resource_env_vars_def unpack2_def split1_def strip_def
  isspace_def SERVICE_NAME_def DEPLOYMENT_ENVIRONMENT_def well_formed_def override_of_def
  merged_def

text \<open>
  Claim C2, as stated: a malformed pair is skipped alone and every well-formed pair of the
  string, before or after it, ends up in the returned map. The code does not do that:
  with \<^verbatim>\<open>OTEL_RESOURCE_ATTRIBUTES="a=1,bad,b=2"\<close> the pair \<^verbatim>\<open>b=2\<close> is a well-formed pair
  of the string, and the returned attributes have no key \<^verbatim>\<open>b\<close>.
\<close>

theorem later_pair_lost_after_malformed:
  "''b=2'' \<in> set (split CHR '','' ''a=1,bad,b=2'') \<and> well_formed ''b=2'' \<and>
   map_of (fst (resource_attributes ''pokemon-pinger-default'' ''unknown'' ''a=1,bad,b=2'')) ''b''
     = None"
  by (simp add: resolver_defs str_int_1)

text \<open>
  Claim C2, amended: for a non-empty override string, the first malformed pair (one
  lacking \<^verbatim>\<open>=\<close>) ends the parse. The well-formed pairs before it are in the returned
  map (laid over the defaults, later over earlier), the malformed pair and every pair
  after it are dropped, one warning naming the whole string is logged, and nothing is
  raised: the resolver returns its map.
\<close>

theorem malformed_pair_ends_parse:
  assumes "resource_env_vars \<noteq> []"
    and "split CHR '','' resource_env_vars = pre @ bad # post"
    and "list_all well_formed pre"
    and "\<not> well_formed bad"
  shows "map_of (fst (parse_resource_env_vars ra resource_env_vars)) =
           merged ra (map override_of pre) \<and>
         snd (parse_resource_env_vars ra resource_env_vars) =
           [(WARNING, ''Could not parse OTEL_RESOURCE_ATTRIBUTES='' @ [CHR 0x27]
               @ resource_env_vars @ [CHR 0x27]
               @ '': not enough values to unpack (expected 2, got 1)'')]"
proof -
  obtain ra' r where fp: "for_pairs (pre @ bad # post) ra = (ra', r)"
    by (cases "for_pairs (pre @ bad # post) ra") auto
  from for_pairs_malformed [OF assms(3) assms(4), of post ra] fp
  have "r = Some (PyExc True ''ValueError'' ''not enough values to unpack (expected 2, got 1)'')"
    and "map_of ra' = map_of ra ++ map_of (rev (map override_of pre))"
    by simp_all
  with assms(1) assms(2) fp show ?thesis
    by (simp add: parse_resource_env_vars_def merged_def)
qed

theorem malformed_pair_ends_parse_witness:
  "map_of (fst (parse_resource_env_vars [(''service.name'', ''svc'')] ''a=1,bad,b=2'')) =
     merged [(''service.name'', ''svc'')] (map override_of [''a=1'']) \<and>
   snd (parse_resource_env_vars [(''service.name'', ''svc'')] ''a=1,bad,b=2'') =
     [(WARNING, ''Could not parse OTEL_RESOURCE_ATTRIBUTES='' @ [CHR 0x27]
         @ ''a=1,bad,b=2'' @ [CHR 0x27]
         @ '': not enough values to unpack (expected 2, got 1)'')]"
proof -
  have h1: "''a=1,bad,b=2'' \<noteq> []"
    by simp
  have h2: "split CHR '','' ''a=1,bad,b=2'' = [''a=1''] @ ''bad'' # [''b=2'']"
    by simp
  have h3: "list_all well_formed [''a=1'']"
    by (simp add: well_formed_def)
  have h4: "\<not> well_formed ''bad''"
    by (simp add: well_formed_def)
  show ?thesis
    by (rule malformed_pair_ends_parse [OF h1 h2 h3 h4])
qed

text \<open>
  Claim C7: for every defaults map and every override string that is a comma-separated
  list of \<^verbatim>\<open>key=value\<close> pairs (every pair holds an \<^verbatim>\<open>=\<close>), each pair is split at its
  first \<^verbatim>\<open>=\<close>, key and value are trimmed, and the result is the defaults with the
  overrides laid over them, an override winning over a default and a later pair over an
  earlier one; no warning is logged. With \<^verbatim>\<open>"team= rockets ,  x=1"\<close> the result is the two
  defaults, then \<^verbatim>\<open>team="rockets"\<close> and \<^verbatim>\<open>x="1"\<close>.
\<close>

theorem overrides_merged_over_defaults:
  assumes "list_all well_formed (split CHR '','' resource_env_vars)"
  shows "map_of (fst (parse_resource_env_vars ra resource_env_vars)) =
           merged ra (map override_of (split CHR '','' resource_env_vars)) \<and>
         snd (parse_resource_env_vars ra resource_env_vars) = [] \<and>
         resource_attributes service_name deployment_environment ''team= rockets ,  x=1'' =
           ([(SERVICE_NAME, service_name), (DEPLOYMENT_ENVIRONMENT, deployment_environment),
             (''team'', ''rockets''), (''x'', ''1'')], [])"
proof -
  have nonempty: "resource_env_vars \<noteq> []"
    using assms by (auto simp: well_formed_def)
  obtain ra' r where fp: "for_pairs (split CHR '','' resource_env_vars) ra = (ra', r)"
    by (cases "for_pairs (split CHR '','' resource_env_vars) ra") auto
  from for_pairs_well_formed [OF assms, of ra] fp
  have "r = None"
    and "map_of ra' = map_of ra ++ map_of (rev (map override_of (split CHR '','' resource_env_vars)))"
    by simp_all
  with nonempty fp
  have general: "map_of (fst (parse_resource_env_vars ra resource_env_vars)) =
           merged ra (map override_of (split CHR '','' resource_env_vars)) \<and>
         snd (parse_resource_env_vars ra resource_env_vars) = []"
    by (simp add: parse_resource_env_vars_def merged_def)
  have example:
    "resource_attributes service_name deployment_environment ''team= rockets ,  x=1'' =
       ([(SERVICE_NAME, service_name), (DEPLOYMENT_ENVIRONMENT, deployment_environment),
         (''team'', ''rockets''), (''x'', ''1'')], [])"
    by (simp add: resource_attributes_def parse_resource_env_vars_def unpack2_def split1_def
        strip_def isspace_def SERVICE_NAME_def DEPLOYMENT_ENVIRONMENT_def)
  from general example show ?thesis
    by simp
qed

theorem overrides_merged_over_defaults_witness:
  "list_all well_formed (split CHR '','' ''team=a=b, x = 1 ,team=c'') \<and>
   map_of (fst (parse_resource_env_vars [(''team'', ''none'')] ''team=a=b, x = 1 ,team=c'')) =
     merged [(''team'', ''none'')] [(''team'', ''a=b''), (''x'', ''1''), (''team'', ''c'')] \<and>
   merged [(''team'', ''none'')] [(''team'', ''a=b''), (''x'', ''1''), (''team'', ''c'')] ''team''
     = Some ''c'' \<and>
   snd (parse_resource_env_vars [(''team'', ''none'')] ''team=a=b, x = 1 ,team=c'') = []"
proof -
  have h: "list_all well_formed (split CHR '','' ''team=a=b, x = 1 ,team=c'')"
    by (simp add: well_formed_def)
  have ovs: "map override_of (split CHR '','' ''team=a=b, x = 1 ,team=c'') =
      [(''team'', ''a=b''), (''x'', ''1''), (''team'', ''c'')]"
    by (simp add: override_of_def strip_def isspace_def)
  have last_wins:
    "merged [(''team'', ''none'')] [(''team'', ''a=b''), (''x'', ''1''), (''team'', ''c'')] ''team''
       = Some ''c''"
    by (simp add: merged_def)
  from overrides_merged_over_defaults [OF h, of "[(''team'', ''none'')]"] h ovs last_wins
  show ?thesis
    by simp
qed

section \<open>Reading traces of the poller\<close>

lemma str_int_0: "str_int 0 = ''0''"
  by (simp add: str_int_def digits10.simps)

lemma str_int_25: "str_int 25 = ''25''"
  by (simp add: str_int_def digits10.simps)

lemma str_int_404: "str_int 404 = ''404''"
  by (simp add: str_int_def digits10.simps)

lemmas counter_names = pokemon_fetch_counter_def pokemon_fetch_success_counter_def
  pokemon_fetch_error_counter_def

lemma counter_adds_append:
  "counter_adds c (xs @ ys) = counter_adds c xs @ counter_adds c ys"
  by (induction c xs rule: counter_adds.induct) simp_all

lemma counter_labels_append:
  "counter_labels (xs @ ys) = counter_labels xs @ counter_labels ys"
  by (induction xs rule: counter_labels.induct) simp_all

lemma statuses_append: "statuses (xs @ ys) = statuses xs @ statuses ys"
  by (induction xs rule: statuses.induct) simp_all

lemma sleeps_append: "sleeps (xs @ ys) = sleeps xs @ sleeps ys"
  by (induction xs rule: sleeps.induct) simp_all

lemma requests_append: "requests (xs @ ys) = requests xs @ requests ys"
  by (induction xs rule: requests.induct) simp_all

lemma recorded_exceptions_append:
  "recorded_exceptions (xs @ ys) = recorded_exceptions xs @ recorded_exceptions ys"
  by (induction xs rule: recorded_exceptions.induct) simp_all

lemma span_attributes_append:
  "span_attributes (xs @ ys) al = span_attributes ys (span_attributes xs al)"
  by (induction xs al rule: span_attributes.induct) simp_all

lemma open_spans_append:
  "open_spans (xs @ ys) n = (case open_spans xs n of None \<Rightarrow> None | Some m \<Rightarrow> open_spans ys m)"
  by (induction xs n rule: open_spans.induct) (simp_all split: nat.splits)

lemma open_spans_no_span_event:
  "\<not> list_ex is_span_event xs \<Longrightarrow> open_spans xs n = Some n"
  by (induction xs n rule: open_spans.induct) simp_all

lemma randint_1_300: "1 \<le> randint 1 300 r \<and> randint 1 300 r \<le> 300"
proof -
  have "r mod 300 < 300" by simp
  then show ?thesis by (simp add: randint_def)
qed

lemma loop_body_trace:
  "fst (loop_body I w) =
     SpanStart ''fetch_pokemon_loop'' # fst (work_unit w) @ fst (sleep I (sleep_raises w)) @ [SpanEnd]"
  by (simp add: loop_body_def split: prod.splits option.splits)

lemma loop_body_result:
  "snd (loop_body I w) =
     (case snd (sleep I (sleep_raises w)) of Some e \<Rightarrow> Some e | None \<Rightarrow> snd (work_unit w))"
  by (simp add: loop_body_def split: prod.splits option.splits)

lemma sleep_returns: "0 \<le> I \<Longrightarrow> I \<le> 9223372036 \<Longrightarrow> sleep I None = ([Sleep I], None)"
  by (simp add: sleep_def)

lemma sleep_quiet:
  "counter_adds c (fst (sleep I a)) = [] \<and> statuses (fst (sleep I a)) = [] \<and>
   recorded_exceptions (fst (sleep I a)) = [] \<and> requests (fst (sleep I a)) = [] \<and>
   counter_labels (fst (sleep I a)) = [] \<and> span_attributes (fst (sleep I a)) al = al \<and>
   \<not> list_ex is_span_event (fst (sleep I a))"
  by (simp add: sleep_def split: option.splits)

text \<open>Outside the Work Unit the loop body makes no telemetry call but the span's start and end.\<close>

lemma loop_body_reads:
  "counter_adds c (fst (loop_body I w)) = counter_adds c (fst (work_unit w))"
  "statuses (fst (loop_body I w)) = statuses (fst (work_unit w))"
  "recorded_exceptions (fst (loop_body I w)) = recorded_exceptions (fst (work_unit w))"
  "requests (fst (loop_body I w)) = requests (fst (work_unit w))"
  "counter_labels (fst (loop_body I w)) = counter_labels (fst (work_unit w))"
  "span_attributes (fst (loop_body I w)) al = span_attributes (fst (work_unit w)) al"
  by (simp_all add: loop_body_trace counter_adds_append statuses_append
      recorded_exceptions_append requests_append counter_labels_append
      span_attributes_append sleep_quiet)

lemma try_block_pokemon_id: "fst (try_block w p) = randint 1 300 (entropy w)"
  by (simp add: try_block_def Let_def split: sum.splits)

text \<open>What the \<^verbatim>\<open>try\<close> block does on every path.\<close>

lemma try_block_always:
  assumes "try_block w p = (i, tr, r)"
  shows "counter_adds pokemon_fetch_counter tr = [(1, [(''pokemon.id'', PStr (str_int i))])]"
    and "recorded_exceptions tr = []"
    and "sleeps tr = []"
    and "\<not> list_ex is_span_event tr"
    and "requests tr = [(''https://pokeapi.co/api/v2/pokemon/'' @ str_int i, 5)]"
    and "map_of (span_attributes tr []) ''pokemon.id.attempted'' = Some (PInt i)"
    and "list_all (\<lambda>labels. map_of labels ''pokemon.id'' = Some (PStr (str_int i)))
           (counter_labels tr)"
  using assms
  by (auto simp add: try_block_def Let_def counter_names split: sum.splits if_splits)

text \<open>What it does when it ends normally, and when an exception leaves it.\<close>

lemma try_block_returns:
  assumes "try_block w p = (i, tr, None)"
  shows "map fst (counter_adds pokemon_fetch_success_counter tr) @
         map fst (counter_adds pokemon_fetch_error_counter tr) = [1]"
    and "length (statuses tr) = 1"
  using assms
  by (auto simp add: try_block_def Let_def counter_names split: sum.splits if_splits)

lemma try_block_raises:
  assumes "try_block w p = (i, tr, Some e)"
  shows "counter_adds pokemon_fetch_success_counter tr = []"
    and "counter_adds pokemon_fetch_error_counter tr = []"
    and "statuses tr = []"
  using assms
  by (auto simp add: try_block_def Let_def counter_names split: sum.splits if_splits)

text \<open>
  The exceptions that leave the \<^verbatim>\<open>try\<close> block: the one \<^verbatim>\<open>session.get\<close> raises, and on a
  200 response the one \<^verbatim>\<open>response.json()\<close> raises or the \<^verbatim>\<open>AttributeError\<close> of
  \<^verbatim>\<open>data.get\<close> on a value that is not a dict.
\<close>

lemma try_block_raises_iff:
  "snd (snd (try_block w p)) = Some e \<longleftrightarrow>
     get w = Inl e \<or>
     (\<exists>r. get w = Inr r \<and> status_code r = 200 \<and>
        (json r = Inl e \<or>
         (\<exists>data. json r = Inr data \<and> dict_get data ''name'' (PStr ''unknown'') = Inl e)))"
  by (auto simp add: try_block_def Let_def split: sum.splits)

lemma except_block_summary:
  "counter_adds pokemon_fetch_counter (except_block i e) = [] \<and>
   counter_adds pokemon_fetch_success_counter (except_block i e) = [] \<and>
   counter_adds pokemon_fetch_error_counter (except_block i e) =
     [(1, [(''pokemon.id'', PStr (str_int i)), (''exception.type'', PStr (type_name e))])] \<and>
   counter_labels (except_block i e) =
     [[(''pokemon.id'', PStr (str_int i)), (''exception.type'', PStr (type_name e))]] \<and>
   statuses (except_block i e) = [StatusERROR (''Exception: '' @ str_exc e)] \<and>
   recorded_exceptions (except_block i e) = [e] \<and>
   sleeps (except_block i e) = [] \<and> requests (except_block i e) = [] \<and>
   span_attributes (except_block i e) al = al \<and>
   \<not> list_ex is_span_event (except_block i e)"
  by (simp add: except_block_def counter_names)

lemma work_unit_unfold:
  "try_block w initial_pokemon_id = (i, tr, r) \<Longrightarrow>
   work_unit w =
     (case r of
        None \<Rightarrow> (tr, None)
      | Some e \<Rightarrow> if is_Exception e then (tr @ except_block i e, None) else (tr, Some e))"
  by (simp add: work_unit_def)

lemma try_block_obtain:
  obtains tr r where "try_block w p = (randint 1 300 (entropy w), tr, r)"
  using try_block_pokemon_id [of w p] by (cases "try_block w p") auto

lemma work_unit_attempts:
  "counter_adds pokemon_fetch_counter (fst (work_unit w)) =
     [(1, [(''pokemon.id'', PStr (str_int (randint 1 300 (entropy w))))])]"
proof -
  obtain tr r where tb: "try_block w initial_pokemon_id = (randint 1 300 (entropy w), tr, r)"
    by (rule try_block_obtain)
  show ?thesis
    by (cases r)
      (simp_all add: work_unit_unfold [OF tb] try_block_always(1) [OF tb] counter_adds_append
        except_block_summary)
qed

lemma work_unit_outcomes:
  assumes "snd (work_unit w) = None"
  shows "map fst (counter_adds pokemon_fetch_success_counter (fst (work_unit w))) @
         map fst (counter_adds pokemon_fetch_error_counter (fst (work_unit w))) = [1]"
proof -
  obtain tr r where tb: "try_block w initial_pokemon_id = (randint 1 300 (entropy w), tr, r)"
    by (rule try_block_obtain)
  show ?thesis
  proof (cases r)
    case None
    with tb try_block_returns(1) [of w initial_pokemon_id _ tr] show ?thesis
      by (simp add: work_unit_unfold [OF tb])
  next
    case (Some e)
    with assms have caught: "is_Exception e"
      by (simp add: work_unit_unfold [OF tb] split: if_splits)
    from tb Some have tb': "try_block w initial_pokemon_id = (randint 1 300 (entropy w), tr, Some e)"
      by simp
    from Some caught show ?thesis
      by (simp add: work_unit_unfold [OF tb] counter_adds_append except_block_summary
          try_block_raises [OF tb'])
  qed
qed

lemma work_unit_quiet:
  "sleeps (fst (work_unit w)) = [] \<and> \<not> list_ex is_span_event (fst (work_unit w))"
proof -
  obtain tr r where tb: "try_block w initial_pokemon_id = (randint 1 300 (entropy w), tr, r)"
    by (rule try_block_obtain)
  show ?thesis
    by (cases r)
      (simp_all add: work_unit_unfold [OF tb] sleeps_append except_block_summary
        try_block_always(3,4) [OF tb])
qed

lemma work_unit_identifier:
  "requests (fst (work_unit w)) =
     [(''https://pokeapi.co/api/v2/pokemon/'' @ str_int (randint 1 300 (entropy w)), 5)] \<and>
   map_of (span_attributes (fst (work_unit w)) []) ''pokemon.id.attempted'' =
     Some (PInt (randint 1 300 (entropy w))) \<and>
   list_all (\<lambda>labels. map_of labels ''pokemon.id'' = Some (PStr (str_int (randint 1 300 (entropy w)))))
     (counter_labels (fst (work_unit w)))"
proof -
  obtain tr r where tb: "try_block w initial_pokemon_id = (randint 1 300 (entropy w), tr, r)"
    by (rule try_block_obtain)
  show ?thesis
    by (cases r)
      (simp_all add: work_unit_unfold [OF tb] requests_append span_attributes_append
        counter_labels_append except_block_summary try_block_always(5,6,7) [OF tb]
        del: append.simps)
qed

lemma work_unit_http_error:
  assumes "get w = Inr r" and "status_code r \<noteq> 200"
  shows "work_unit w =
    ([SetAttribute ''pokemon.id.attempted'' (PInt (randint 1 300 (entropy w))),
      CounterAdd pokemon_fetch_counter 1
        [(''pokemon.id'', PStr (str_int (randint 1 300 (entropy w))))],
      LogJson INFO
        (PDict [(''message'', PStr (''fetching number '' @ str_int (randint 1 300 (entropy w))))]),
      HttpGet (''https://pokeapi.co/api/v2/pokemon/'' @ str_int (randint 1 300 (entropy w))) 5,
      SetAttribute ''http.status_code'' (PInt (status_code r)),
      SetAttribute ''error.message'' (PStr (''HTTP '' @ str_int (status_code r))),
      SetStatus (StatusERROR (''PokeAPI request failed with status '' @ str_int (status_code r))),
      CounterAdd pokemon_fetch_error_counter 1
        [(''pokemon.id'', PStr (str_int (randint 1 300 (entropy w)))),
         (''http.status_code'', PStr (str_int (status_code r)))],
      LogJson WARNING
        (PDict [(''pokemon_id'', PInt (randint 1 300 (entropy w))),
                (''error'', PStr (''HTTP '' @ str_int (status_code r))),
                (''status'', PInt (status_code r))])],
     None)"
  using assms by (simp add: work_unit_def try_block_def Let_def)

lemma work_unit_success:
  assumes "get w = Inr r" and "status_code r = 200" and "json r = Inr (PDict kvs)"
    and "pokemon_name = (case map_of kvs ''name'' of None \<Rightarrow> PStr ''unknown'' | Some v \<Rightarrow> v)"
  shows "work_unit w =
    ([SetAttribute ''pokemon.id.attempted'' (PInt (randint 1 300 (entropy w))),
      CounterAdd pokemon_fetch_counter 1
        [(''pokemon.id'', PStr (str_int (randint 1 300 (entropy w))))],
      LogJson INFO
        (PDict [(''message'', PStr (''fetching number '' @ str_int (randint 1 300 (entropy w))))]),
      HttpGet (''https://pokeapi.co/api/v2/pokemon/'' @ str_int (randint 1 300 (entropy w))) 5,
      SetAttribute ''http.status_code'' (PInt 200),
      SetAttribute ''pokemon.name'' pokemon_name,
      SetStatus StatusOK,
      CounterAdd pokemon_fetch_success_counter 1
        [(''pokemon.id'', PStr (str_int (randint 1 300 (entropy w)))),
         (''pokemon.name'', pokemon_name)],
      LogJson INFO
        (PDict [(''pokemon_id'', PInt (randint 1 300 (entropy w))),
                (''pokemon_name'', pokemon_name),
                (''status'', PInt 200)])],
     None)"
  using assms by (simp add: work_unit_def try_block_def dict_get_def Let_def split: option.splits)

lemma open_spans_loop_body: "open_spans (fst (loop_body I w)) n = Some n"
  using work_unit_quiet [of w] sleep_quiet [of _ I "sleep_raises w"]
  by (simp add: loop_body_trace open_spans_append open_spans_no_span_event)

lemma open_spans_while_True: "open_spans (fst (while_True I ws)) n = Some n"
proof (induction ws)
  case Nil
  show ?case by simp
next
  case (Cons w ws)
  obtain tr r where lb: "loop_body I w = (tr, r)"
    by (cases "loop_body I w") auto
  obtain tr' r' where wt: "while_True I ws = (tr', r')"
    by (cases "while_True I ws") auto
  from lb open_spans_loop_body [of I w n] have tr: "open_spans tr n = Some n"
    by simp
  from wt Cons.IH have tr': "open_spans tr' n = Some n"
    by simp
  show ?case
    by (cases r) (simp_all add: lb wt tr tr' open_spans_append)
qed

lemma while_True_all_caught:
  "0 \<le> I \<Longrightarrow> I \<le> 9223372036 \<Longrightarrow>
   list_all (\<lambda>w. snd (work_unit w) = None \<and> sleep_raises w = None) ws \<Longrightarrow>
     snd (while_True I ws) = None \<and> sleeps (fst (while_True I ws)) = replicate (length ws) I"
proof (induction ws)
  case Nil
  show ?case by simp
next
  case (Cons w ws)
  from Cons.prems have here: "snd (work_unit w) = None" and os: "sleep_raises w = None"
    and rest: "list_all (\<lambda>w. snd (work_unit w) = None \<and> sleep_raises w = None) ws"
    by simp_all
  have slept: "sleep I (sleep_raises w) = ([Sleep I], None)"
    unfolding os by (rule sleep_returns [OF Cons.prems(1) Cons.prems(2)])
  obtain tr r where lb: "loop_body I w = (tr, r)"
    by (cases "loop_body I w") auto
  obtain tr' r' where wt: "while_True I ws = (tr', r')"
    by (cases "while_True I ws") auto
  from lb loop_body_result [of I w] here have r: "r = None"
    by (simp add: slept)
  from lb loop_body_trace [of I w] work_unit_quiet [of w]
  have tr: "sleeps tr = [I]"
    by (simp add: slept sleeps_append)
  from Cons.IH [OF Cons.prems(1) Cons.prems(2) rest] wt
  have "r' = None" and "sleeps tr' = replicate (length ws) I"
    by simp_all
  then show ?case
    by (simp add: lb wt r tr sleeps_append)
qed

text \<open>Reading back the decimal digits of a natural number gives the number.\<close>

lemma digit_char: "n < 10 \<Longrightarrow> of_char (''0123456789'' ! n) = 48 + n"
proof -
  assume "n < 10"
  then have "n = 0 \<or> n = 1 \<or> n = 2 \<or> n = 3 \<or> n = 4 \<or> n = 5 \<or> n = 6 \<or> n = 7 \<or> n = 8 \<or> n = 9"
    by arith
  then show ?thesis
    by (elim disjE) simp_all
qed

lemma int_of_digits_snoc:
  "int_of_digits (ds @ [c]) = 10 * int_of_digits ds + (int (of_char c) - 48)"
  by (simp add: int_of_digits_def)

lemma digits10_shape: "digits10 n \<noteq> [] \<and> list_all isdigit (digits10 n)"
proof (induction n rule: digits10.induct)
  case (1 n)
  show ?case
  proof (cases "n < 10")
    case True
    then have "isdigit (''0123456789'' ! n)"
      by (simp add: isdigit_def digit_char)
    with True show ?thesis
      by (subst (1 2) digits10.simps) simp
  next
    case False
    have "n mod 10 < 10" by simp
    then have "isdigit (''0123456789'' ! (n mod 10))"
      by (simp add: isdigit_def digit_char)
    with False "1.IH" show ?thesis
      by (subst (1 2) digits10.simps) simp
  qed
qed

lemma int_of_digits_digits10: "int_of_digits (digits10 n) = int n"
proof (induction n rule: digits10.induct)
  case (1 n)
  show ?case
  proof (cases "n < 10")
    case True
    then show ?thesis
      by (subst digits10.simps) (simp add: int_of_digits_def digit_char)
  next
    case False
    have small: "n mod 10 < 10" by simp
    have "int_of_digits (digits10 n) =
        10 * int_of_digits (digits10 (n div 10)) + (int (of_char (''0123456789'' ! (n mod 10))) - 48)"
      using False by (subst digits10.simps) (simp add: int_of_digits_snoc)
    also have "\<dots> = 10 * int (n div 10) + int (n mod 10)"
      using False "1.IH" by (simp add: digit_char [OF small])
    also have "\<dots> = int n"
      by arith
    finally show ?thesis .
  qed
qed

lemma str_int_nat: "str_int (int n) = digits10 n"
  by (simp add: str_int_def)

lemmas catch_names = pokemon_catch_attempt_counter_def pokemon_catch_success_counter_def
  pokemon_catch_failure_counter_def

lemma example_envs:
  "snd (work_unit timeout_env) = None"
  "snd (work_unit not_found_env) = None"
  "snd (work_unit pikachu_env) = None"
  by (simp_all add: timeout_env_def not_found_env_def pikachu_env_def work_unit_def
      try_block_def dict_get_def Let_def)

section \<open>Counting: one attempt, one outcome\<close>

text \<open>
  Claim C1: for every execution of a Work Unit (one iteration of the poller's loop, or one
  call of the catcher's view), the attempt counter is incremented exactly once, by one,
  and exactly one of the success counter and the error (failure) counter is incremented
  exactly once, by one: never both, never neither. For the poller this holds whether the
  outcome is a success, a non-200 status or a caught exception, that is, whenever no
  exception is left in flight by the \<^verbatim>\<open>except Exception\<close> clause. The increments of the
  two outcome counters, listed together, are the one-element list \<open>[1]\<close>.
\<close>

theorem one_attempt_one_outcome:
  assumes "snd (work_unit w) = None"
  shows "map fst (counter_adds pokemon_fetch_counter (fst (loop_body INTERVAL_SEC w))) = [1] \<and>
         map fst (counter_adds pokemon_fetch_success_counter (fst (loop_body INTERVAL_SEC w))) @
         map fst (counter_adds pokemon_fetch_error_counter (fst (loop_body INTERVAL_SEC w))) = [1] \<and>
         map fst (counter_adds pokemon_catch_attempt_counter (snd (catch pkmn_id random))) = [1] \<and>
         map fst (counter_adds pokemon_catch_success_counter (snd (catch pkmn_id random))) @
         map fst (counter_adds pokemon_catch_failure_counter (snd (catch pkmn_id random))) = [1]"
proof -
  have poller: "map fst (counter_adds pokemon_fetch_counter (fst (loop_body INTERVAL_SEC w))) = [1]"
    by (simp add: loop_body_reads work_unit_attempts)
  have outcome:
    "map fst (counter_adds pokemon_fetch_success_counter (fst (loop_body INTERVAL_SEC w))) @
     map fst (counter_adds pokemon_fetch_error_counter (fst (loop_body INTERVAL_SEC w))) = [1]"
    using work_unit_outcomes [OF assms] by (simp add: loop_body_reads)
  have catcher:
    "map fst (counter_adds pokemon_catch_attempt_counter (snd (catch pkmn_id random))) = [1] \<and>
     map fst (counter_adds pokemon_catch_success_counter (snd (catch pkmn_id random))) @
     map fst (counter_adds pokemon_catch_failure_counter (snd (catch pkmn_id random))) = [1]"
    by (simp add: catch_def Let_def catch_names)
  from poller outcome catcher show ?thesis
    by simp
qed

theorem one_attempt_one_outcome_witness:
  "snd (work_unit timeout_env) = None \<and>
   map fst (counter_adds pokemon_fetch_counter (fst (loop_body 30 timeout_env))) = [1] \<and>
   map fst (counter_adds pokemon_fetch_success_counter (fst (loop_body 30 timeout_env))) @
   map fst (counter_adds pokemon_fetch_error_counter (fst (loop_body 30 timeout_env))) = [1] \<and>
   map fst (counter_adds pokemon_catch_attempt_counter (snd (catch 7 (1 / 4)))) = [1] \<and>
   map fst (counter_adds pokemon_catch_success_counter (snd (catch 7 (1 / 4)))) @
   map fst (counter_adds pokemon_catch_failure_counter (snd (catch 7 (1 / 4)))) = [1]"
proof -
  have h: "snd (work_unit timeout_env) = None"
    by (simp add: timeout_env_def work_unit_def try_block_def Let_def)
  from h one_attempt_one_outcome [OF h, of 30 7 "1 / 4"] show ?thesis
    by simp
qed

section \<open>The three outcomes of the poller's Work Unit\<close>

text \<open>
  Claim C3, as stated: on a status other than 200 the span is marked ERROR with the same
  message as the error-message attribute, \<^verbatim>\<open>"HTTP <status>"\<close>. The code gives the status
  another description: with a 404 response the span status is \<^verbatim>\<open>ERROR\<close> with
  \<^verbatim>\<open>"PokeAPI request failed with status 404"\<close>, not \<^verbatim>\<open>"HTTP 404"\<close>.
\<close>

theorem http_404_status_description:
  "get not_found_env = Inr \<lparr>status_code = 404,
                            json = Inl (PyExc True ''JSONDecodeError'' ''Expecting value'')\<rparr> \<and>
   statuses (fst (loop_body 30 not_found_env)) =
     [StatusERROR ''PokeAPI request failed with status 404''] \<and>
   statuses (fst (loop_body 30 not_found_env)) \<noteq> [StatusERROR ''HTTP 404'']"
proof -
  have g: "get not_found_env = Inr \<lparr>status_code = 404,
      json = Inl (PyExc True ''JSONDecodeError'' ''Expecting value'')\<rparr>"
    by (simp add: not_found_env_def)
  have "statuses (fst (loop_body 30 not_found_env)) =
      [StatusERROR (''PokeAPI request failed with status '' @ str_int 404)]"
    by (simp add: loop_body_reads work_unit_http_error [OF g])
  then have "statuses (fst (loop_body 30 not_found_env)) =
      [StatusERROR ''PokeAPI request failed with status 404'']"
    by (simp add: str_int_404)
  with g show ?thesis
    by simp
qed

text \<open>
  Claim C3, amended: for every poller Work Unit execution whose HTTP response has a status
  code other than 200, the span receives an error-message attribute equal to
  \<^verbatim>\<open>"HTTP <status>"\<close>, the span is marked ERROR with the description
  \<^verbatim>\<open>"PokeAPI request failed with status <status>"\<close>, the error counter is incremented once
  with labels for the attempted id and the status code, the success counter is not
  incremented, and no exception is raised by this branch: none is recorded and none
  leaves the Work Unit.
\<close>

theorem non_200_is_application_failure:
  assumes "get w = Inr r" and "status_code r \<noteq> 200"
  shows "map_of (span_attributes (fst (loop_body INTERVAL_SEC w)) []) ''error.message'' =
           Some (PStr (''HTTP '' @ str_int (status_code r))) \<and>
         statuses (fst (loop_body INTERVAL_SEC w)) =
           [StatusERROR (''PokeAPI request failed with status '' @ str_int (status_code r))] \<and>
         counter_adds pokemon_fetch_error_counter (fst (loop_body INTERVAL_SEC w)) =
           [(1, [(''pokemon.id'', PStr (str_int (randint 1 300 (entropy w)))),
                 (''http.status_code'', PStr (str_int (status_code r)))])] \<and>
         counter_adds pokemon_fetch_success_counter (fst (loop_body INTERVAL_SEC w)) = [] \<and>
         recorded_exceptions (fst (loop_body INTERVAL_SEC w)) = [] \<and>
         snd (work_unit w) = None"
  by (simp add: loop_body_reads work_unit_http_error [OF assms] counter_names)

theorem non_200_is_application_failure_witness:
  "get not_found_env = Inr \<lparr>status_code = 404,
                            json = Inl (PyExc True ''JSONDecodeError'' ''Expecting value'')\<rparr> \<and>
   (404::int) \<noteq> 200 \<and>
   map_of (span_attributes (fst (loop_body 30 not_found_env)) []) ''error.message'' =
     Some (PStr (''HTTP '' @ str_int 404)) \<and>
   statuses (fst (loop_body 30 not_found_env)) =
     [StatusERROR (''PokeAPI request failed with status '' @ str_int 404)] \<and>
   counter_adds pokemon_fetch_error_counter (fst (loop_body 30 not_found_env)) =
     [(1, [(''pokemon.id'', PStr (str_int (randint 1 300 (entropy not_found_env)))),
           (''http.status_code'', PStr (str_int 404))])] \<and>
   counter_adds pokemon_fetch_success_counter (fst (loop_body 30 not_found_env)) = [] \<and>
   recorded_exceptions (fst (loop_body 30 not_found_env)) = [] \<and>
   snd (work_unit not_found_env) = None"
proof -
  have g: "get not_found_env = Inr \<lparr>status_code = 404,
      json = Inl (PyExc True ''JSONDecodeError'' ''Expecting value'')\<rparr>"
    by (simp add: not_found_env_def)
  have s: "status_code \<lparr>status_code = 404,
      json = Inl (PyExc True ''JSONDecodeError'' ''Expecting value'')\<rparr> \<noteq> 200"
    by simp
  from g non_200_is_application_failure [OF g s, of 30] show ?thesis
    by simp
qed

text \<open>
  Claim C8, as stated: for every execution whose HTTP response has status 200 the span is
  marked OK and the success counter is incremented. The code does so only when the body
  parses: with a 200 response on which \<^verbatim>\<open>response.json()\<close> raises, the span is marked
  ERROR, the success counter is not incremented and the error counter is.
\<close>

theorem ok_status_with_unparsable_body:
  "get bad_body_env =
     Inr \<lparr>status_code = 200, json = Inl (PyExc True ''JSONDecodeError'' ''Expecting value'')\<rparr> \<and>
   statuses (fst (loop_body 30 bad_body_env)) = [StatusERROR ''Exception: Expecting value''] \<and>
   counter_adds pokemon_fetch_success_counter (fst (loop_body 30 bad_body_env)) = [] \<and>
   map fst (counter_adds pokemon_fetch_error_counter (fst (loop_body 30 bad_body_env))) = [1]"
  by (simp add: loop_body_reads bad_body_env_def work_unit_def try_block_def except_block_def
      Let_def counter_names)

text \<open>
  Claim C8, amended: for every poller Work Unit execution whose HTTP response has status
  200 and whose body parses to a JSON object, the name is the object's \<^verbatim>\<open>name\<close> field, or
  \<^verbatim>\<open>"unknown"\<close> when the field is absent; the name and the status are attached to the span,
  the span is marked OK, and the success counter is incremented once with labels for the
  id and that name; the error counter is not incremented.
\<close>

theorem ok_response_is_success:
  assumes "get w = Inr r" and "status_code r = 200" and "json r = Inr (PDict kvs)"
    and "pokemon_name = (case map_of kvs ''name'' of None \<Rightarrow> PStr ''unknown'' | Some v \<Rightarrow> v)"
  shows "map_of (span_attributes (fst (loop_body INTERVAL_SEC w)) []) ''pokemon.name'' =
           Some pokemon_name \<and>
         map_of (span_attributes (fst (loop_body INTERVAL_SEC w)) []) ''http.status_code'' =
           Some (PInt 200) \<and>
         statuses (fst (loop_body INTERVAL_SEC w)) = [StatusOK] \<and>
         counter_adds pokemon_fetch_success_counter (fst (loop_body INTERVAL_SEC w)) =
           [(1, [(''pokemon.id'', PStr (str_int (randint 1 300 (entropy w)))),
                 (''pokemon.name'', pokemon_name)])] \<and>
         counter_adds pokemon_fetch_error_counter (fst (loop_body INTERVAL_SEC w)) = [] \<and>
         recorded_exceptions (fst (loop_body INTERVAL_SEC w)) = []"
  by (simp add: loop_body_reads work_unit_success [OF assms] counter_names)

theorem ok_response_is_success_witness:
  "get nameless_env = Inr \<lparr>status_code = 200, json = Inr (PDict [(''id'', PInt 300)])\<rparr> \<and>
   map_of [(''id'', PInt 300)] ''name'' = None \<and>
   map_of (span_attributes (fst (loop_body 30 nameless_env)) []) ''pokemon.name'' =
     Some (PStr ''unknown'') \<and>
   map_of (span_attributes (fst (loop_body 30 nameless_env)) []) ''http.status_code'' =
     Some (PInt 200) \<and>
   statuses (fst (loop_body 30 nameless_env)) = [StatusOK] \<and>
   counter_adds pokemon_fetch_success_counter (fst (loop_body 30 nameless_env)) =
     [(1, [(''pokemon.id'', PStr (str_int (randint 1 300 (entropy nameless_env)))),
           (''pokemon.name'', PStr ''unknown'')])] \<and>
   counter_adds pokemon_fetch_error_counter (fst (loop_body 30 nameless_env)) = [] \<and>
   recorded_exceptions (fst (loop_body 30 nameless_env)) = []"
proof -
  have g: "get nameless_env = Inr \<lparr>status_code = 200, json = Inr (PDict [(''id'', PInt 300)])\<rparr>"
    by (simp add: nameless_env_def)
  have s: "status_code \<lparr>status_code = 200, json = Inr (PDict [(''id'', PInt 300)])\<rparr> = 200"
    by simp
  have j: "json \<lparr>status_code = 200, json = Inr (PDict [(''id'', PInt 300)])\<rparr> =
      Inr (PDict [(''id'', PInt 300)])"
    by simp
  have n: "PStr ''unknown'' =
      (case map_of [(''id'', PInt 300)] ''name'' of None \<Rightarrow> PStr ''unknown'' | Some v \<Rightarrow> v)"
    by simp
  have m: "map_of [(''id'', PInt 300)] ''name'' = None"
    by simp
  from g m ok_response_is_success [OF g s j n, of 30] show ?thesis
    by simp
qed

text \<open>
  Claim C4, as stated: for every exception raised inside a Work Unit the span is marked
  ERROR with the exception message, and the exception never leaves the Work Unit nor ends
  the loop. Two things differ in the code. With a timeout of \<^verbatim>\<open>session.get\<close> whose message
  is \<^verbatim>\<open>"connection to pokeapi.co timed out"\<close>, the status description is that message
  behind the prefix \<^verbatim>\<open>"Exception: "\<close>, not the message itself. And an exception that is
  not an instance of \<^verbatim>\<open>Exception\<close>, such as a \<^verbatim>\<open>KeyboardInterrupt\<close> raised inside
  \<^verbatim>\<open>session.get\<close>, is not caught: nothing is recorded on the span, the exception leaves
  the Work Unit and ends the loop.
\<close>

theorem exception_description_and_uncaught:
  "get timeout_env = Inl (PyExc True ''ConnectTimeout'' ''connection to pokeapi.co timed out'') \<and>
   statuses (fst (loop_body 30 timeout_env)) =
     [StatusERROR ''Exception: connection to pokeapi.co timed out''] \<and>
   statuses (fst (loop_body 30 timeout_env)) \<noteq>
     [StatusERROR ''connection to pokeapi.co timed out''] \<and>
   get uncaught_env = Inl (PyExc False ''KeyboardInterrupt'' []) \<and>
   recorded_exceptions (fst (loop_body 30 uncaught_env)) = [] \<and>
   snd (work_unit uncaught_env) = Some (PyExc False ''KeyboardInterrupt'' []) \<and>
   snd (while_True 30 [uncaught_env, pikachu_env]) = Some (PyExc False ''KeyboardInterrupt'' [])"
proof -
  have caught: "statuses (fst (loop_body 30 timeout_env)) =
      [StatusERROR ''Exception: connection to pokeapi.co timed out'']"
    by (simp add: loop_body_reads timeout_env_def work_unit_def try_block_def except_block_def
        Let_def)
  have wu: "work_unit uncaught_env =
      (fst (snd (try_block uncaught_env initial_pokemon_id)),
       Some (PyExc False ''KeyboardInterrupt'' []))"
    by (simp add: uncaught_env_def work_unit_def try_block_def Let_def)
  have quiet: "recorded_exceptions (fst (loop_body 30 uncaught_env)) = []"
    by (simp add: loop_body_reads uncaught_env_def work_unit_def try_block_def Let_def)
  have slept: "sleep 30 (sleep_raises uncaught_env) = ([Sleep 30], None)"
    by (simp add: sleep_def uncaught_env_def)
  have "snd (loop_body 30 uncaught_env) = Some (PyExc False ''KeyboardInterrupt'' [])"
    by (simp add: loop_body_result wu slept)
  then have ended:
    "snd (while_True 30 [uncaught_env, pikachu_env]) = Some (PyExc False ''KeyboardInterrupt'' [])"
    by (cases "loop_body 30 uncaught_env") simp
  have g1: "get timeout_env =
      Inl (PyExc True ''ConnectTimeout'' ''connection to pokeapi.co timed out'')"
    by (simp add: timeout_env_def)
  have g2: "get uncaught_env = Inl (PyExc False ''KeyboardInterrupt'' [])"
    by (simp add: uncaught_env_def)
  from caught have differs: "statuses (fst (loop_body 30 timeout_env)) \<noteq>
      [StatusERROR ''connection to pokeapi.co timed out'']"
    by simp
  from wu have left: "snd (work_unit uncaught_env) = Some (PyExc False ''KeyboardInterrupt'' [])"
    by simp
  from g1 caught differs g2 quiet left ended show ?thesis
    by blast
qed

text \<open>
  Claim C4, amended: for every exception raised inside a poller Work Unit execution that
  is an instance of \<^verbatim>\<open>Exception\<close> (a network failure or timeout of \<^verbatim>\<open>session.get\<close>, a parse
  failure of \<^verbatim>\<open>response.json()\<close>, an \<^verbatim>\<open>AttributeError\<close> of \<^verbatim>\<open>data.get\<close>), the exception is
  recorded on the span, the span is marked ERROR with the description \<^verbatim>\<open>"Exception: "\<close>
  followed by the exception message, the error counter is incremented once with labels
  for the id and the exception's type name, and the exception never leaves the Work
  Unit, so the Supervisor Loop is never ended by it: the loop body ends as the sleep of
  its \<^verbatim>\<open>finally\<close> clause ends, and when that sleep returns the loop goes on with its next
  iteration.
\<close>

theorem exception_caught_in_work_unit:
  assumes "try_block w initial_pokemon_id = (pokemon_id, tr, Some e)"
    and "is_Exception e"
  shows "recorded_exceptions (fst (loop_body INTERVAL_SEC w)) = [e] \<and>
         statuses (fst (loop_body INTERVAL_SEC w)) = [StatusERROR (''Exception: '' @ str_exc e)] \<and>
         counter_adds pokemon_fetch_error_counter (fst (loop_body INTERVAL_SEC w)) =
           [(1, [(''pokemon.id'', PStr (str_int pokemon_id)),
                 (''exception.type'', PStr (type_name e))])] \<and>
         counter_adds pokemon_fetch_success_counter (fst (loop_body INTERVAL_SEC w)) = [] \<and>
         pokemon_id = randint 1 300 (entropy w) \<and>
         snd (work_unit w) = None \<and>
         snd (loop_body INTERVAL_SEC w) = snd (sleep INTERVAL_SEC (sleep_raises w)) \<and>
         (snd (sleep INTERVAL_SEC (sleep_raises w)) = None \<longrightarrow>
            while_True INTERVAL_SEC (w # ws) =
              (fst (loop_body INTERVAL_SEC w) @ fst (while_True INTERVAL_SEC ws),
               snd (while_True INTERVAL_SEC ws)))"
proof -
  have wu: "work_unit w = (tr @ except_block pokemon_id e, None)"
    using assms(2) by (simp add: work_unit_unfold [OF assms(1)])
  have pid: "pokemon_id = randint 1 300 (entropy w)"
    using try_block_pokemon_id [of w initial_pokemon_id] assms(1) by simp
  have telemetry:
    "recorded_exceptions (fst (loop_body INTERVAL_SEC w)) = [e] \<and>
     statuses (fst (loop_body INTERVAL_SEC w)) = [StatusERROR (''Exception: '' @ str_exc e)] \<and>
     counter_adds pokemon_fetch_error_counter (fst (loop_body INTERVAL_SEC w)) =
       [(1, [(''pokemon.id'', PStr (str_int pokemon_id)),
             (''exception.type'', PStr (type_name e))])] \<and>
     counter_adds pokemon_fetch_success_counter (fst (loop_body INTERVAL_SEC w)) = []"
    by (simp add: loop_body_reads wu recorded_exceptions_append statuses_append
        counter_adds_append try_block_always [OF assms(1)] try_block_raises [OF assms(1)]
        except_block_summary)
  have body: "snd (loop_body INTERVAL_SEC w) = snd (sleep INTERVAL_SEC (sleep_raises w))"
    by (simp add: loop_body_result wu split: option.splits)
  have continues: "snd (sleep INTERVAL_SEC (sleep_raises w)) = None \<longrightarrow>
      while_True INTERVAL_SEC (w # ws) =
        (fst (loop_body INTERVAL_SEC w) @ fst (while_True INTERVAL_SEC ws),
         snd (while_True INTERVAL_SEC ws))"
  proof
    assume "snd (sleep INTERVAL_SEC (sleep_raises w)) = None"
    with body have "snd (loop_body INTERVAL_SEC w) = None"
      by simp
    then show "while_True INTERVAL_SEC (w # ws) =
        (fst (loop_body INTERVAL_SEC w) @ fst (while_True INTERVAL_SEC ws),
         snd (while_True INTERVAL_SEC ws))"
      by (cases "loop_body INTERVAL_SEC w"; cases "while_True INTERVAL_SEC ws") simp
  qed
  from wu have none: "snd (work_unit w) = None"
    by simp
  from telemetry pid none body continues show ?thesis
    by blast
qed

theorem exception_caught_in_work_unit_witness:
  "try_block timeout_env initial_pokemon_id =
     (25,
      [SetAttribute ''pokemon.id.attempted'' (PInt 25),
       CounterAdd pokemon_fetch_counter 1 [(''pokemon.id'', PStr ''25'')],
       LogJson INFO (PDict [(''message'', PStr ''fetching number 25'')]),
       HttpGet ''https://pokeapi.co/api/v2/pokemon/25'' 5],
      Some (PyExc True ''ConnectTimeout'' ''connection to pokeapi.co timed out'')) \<and>
   is_Exception (PyExc True ''ConnectTimeout'' ''connection to pokeapi.co timed out'') \<and>
   snd (sleep 30 (sleep_raises timeout_env)) = None \<and>
   recorded_exceptions (fst (loop_body 30 timeout_env)) =
     [PyExc True ''ConnectTimeout'' ''connection to pokeapi.co timed out''] \<and>
   statuses (fst (loop_body 30 timeout_env)) =
     [StatusERROR ''Exception: connection to pokeapi.co timed out''] \<and>
   counter_adds pokemon_fetch_error_counter (fst (loop_body 30 timeout_env)) =
     [(1, [(''pokemon.id'', PStr ''25''), (''exception.type'', PStr ''ConnectTimeout'')])] \<and>
   snd (work_unit timeout_env) = None \<and>
   snd (loop_body 30 timeout_env) = None \<and>
   while_True 30 [timeout_env, pikachu_env] =
     (fst (loop_body 30 timeout_env) @ fst (while_True 30 [pikachu_env]),
      snd (while_True 30 [pikachu_env]))"
proof -
  have h1: "try_block timeout_env initial_pokemon_id =
     (25,
      [SetAttribute ''pokemon.id.attempted'' (PInt 25),
       CounterAdd pokemon_fetch_counter 1 [(''pokemon.id'', PStr ''25'')],
       LogJson INFO (PDict [(''message'', PStr ''fetching number 25'')]),
       HttpGet ''https://pokeapi.co/api/v2/pokemon/25'' 5],
      Some (PyExc True ''ConnectTimeout'' ''connection to pokeapi.co timed out''))"
    by (simp add: timeout_env_def try_block_def Let_def randint_def str_int_25)
  have h2: "is_Exception (PyExc True ''ConnectTimeout'' ''connection to pokeapi.co timed out'')"
    by simp
  have h3: "snd (sleep 30 (sleep_raises timeout_env)) = None"
    by (simp add: sleep_def timeout_env_def)
  from h1 h2 h3 exception_caught_in_work_unit [OF h1 h2, of 30 "[pikachu_env]"] str_int_25
  show ?thesis
    by simp
qed

section \<open>The Supervisor Loop\<close>

text \<open>
  Claim C6, as stated: in every iteration the loop sleeps the full configured interval
  after the Work Unit. The code passes \<^verbatim>\<open>INTERVAL_SEC\<close> to \<^verbatim>\<open>time.sleep\<close> as it was read
  from the environment, and the call can refuse it. With \<^verbatim>\<open>INTERVAL_SEC=10000000000\<close>
  the call raises \<^verbatim>\<open>OverflowError\<close> after a successful Work Unit: nothing is slept and the
  loop ends in its first iteration. With \<^verbatim>\<open>INTERVAL_SEC=-1\<close> it raises \<^verbatim>\<open>ValueError\<close>, and
  with \<^verbatim>\<open>INTERVAL_SEC=9223372036\<close> on a system that cannot hold the deadline it raises
  \<^verbatim>\<open>OSError\<close>, with the same effect.
\<close>

theorem no_sleep_for_refused_interval:
  "snd (work_unit pikachu_env) = None \<and>
   sleeps (fst (loop_body 10000000000 pikachu_env)) = [] \<and>
   snd (loop_body 10000000000 pikachu_env) =
     Some (PyExc True ''OverflowError'' ''timestamp too large to convert to C _PyTime_t'') \<and>
   snd (while_True 10000000000 [pikachu_env, pikachu_env]) =
     Some (PyExc True ''OverflowError'' ''timestamp too large to convert to C _PyTime_t'') \<and>
   sleeps (fst (while_True 10000000000 [pikachu_env, pikachu_env])) = [] \<and>
   sleeps (fst (loop_body (- 1) pikachu_env)) = [] \<and>
   snd (loop_body (- 1) pikachu_env) =
     Some (PyExc True ''ValueError'' ''sleep length must be non-negative'') \<and>
   snd (work_unit clock_full_env) = None \<and>
   sleeps (fst (loop_body 9223372036 clock_full_env)) = [] \<and>
   snd (loop_body 9223372036 clock_full_env) =
     Some (PyExc True ''OSError'' ''[Errno 22] Invalid argument'')"
proof -
  have wu: "snd (work_unit pikachu_env) = None" "snd (work_unit clock_full_env) = None"
    by (simp_all add: pikachu_env_def clock_full_env_def work_unit_def try_block_def
        dict_get_def Let_def)
  have quiet: "sleeps (fst (work_unit pikachu_env)) = []"
    "sleeps (fst (work_unit clock_full_env)) = []"
    using work_unit_quiet [of pikachu_env] work_unit_quiet [of clock_full_env] by simp_all
  have big: "sleep 10000000000 (sleep_raises pikachu_env) =
      ([], Some (PyExc True ''OverflowError'' ''timestamp too large to convert to C _PyTime_t''))"
    by (simp add: sleep_def)
  have neg: "sleep (- 1) (sleep_raises pikachu_env) =
      ([], Some (PyExc True ''ValueError'' ''sleep length must be non-negative''))"
    by (simp add: sleep_def)
  have full: "sleep 9223372036 (sleep_raises clock_full_env) =
      ([], Some (PyExc True ''OSError'' ''[Errno 22] Invalid argument''))"
    by (simp add: sleep_def clock_full_env_def)
  have b1: "sleeps (fst (loop_body 10000000000 pikachu_env)) = []"
    by (simp add: loop_body_trace sleeps_append quiet big)
  have b2: "snd (loop_body 10000000000 pikachu_env) =
      Some (PyExc True ''OverflowError'' ''timestamp too large to convert to C _PyTime_t'')"
    by (simp add: loop_body_result big)
  from b1 b2 have b3:
    "snd (while_True 10000000000 [pikachu_env, pikachu_env]) =
       Some (PyExc True ''OverflowError'' ''timestamp too large to convert to C _PyTime_t'') \<and>
     sleeps (fst (while_True 10000000000 [pikachu_env, pikachu_env])) = []"
    by (cases "loop_body 10000000000 pikachu_env") simp
  have n1: "sleeps (fst (loop_body (- 1) pikachu_env)) = []"
    by (simp add: loop_body_trace sleeps_append quiet neg)
  have n2: "snd (loop_body (- 1) pikachu_env) =
      Some (PyExc True ''ValueError'' ''sleep length must be non-negative'')"
    by (simp add: loop_body_result neg)
  have f1: "sleeps (fst (loop_body 9223372036 clock_full_env)) = []"
    by (simp add: loop_body_trace sleeps_append quiet full)
  have f2: "snd (loop_body 9223372036 clock_full_env) =
      Some (PyExc True ''OSError'' ''[Errno 22] Invalid argument'')"
    by (simp add: loop_body_result full)
  from wu b1 b2 b3 n1 n2 f1 f2 show ?thesis
    by blast
qed

text \<open>
  Claim C6, amended: for every iteration of the poller's loop whose configured interval
  \<^verbatim>\<open>time.sleep\<close> accepts (from 0 to 9223372036 seconds, the system call not failing), the
  loop sleeps the full interval after the Work Unit and before the span ends and the
  next iteration begins, whatever the Work Unit's outcome, also when an exception that
  \<^verbatim>\<open>except Exception\<close> does not catch is in flight: the loop body's trace is the span
  start, the Work Unit's calls (no sleep among them), one sleep of the interval, the span
  end. A run of the loop over iterations that leave no exception in flight is still
  running at its end and has slept the interval once per iteration.
\<close>

theorem sleep_after_every_work_unit:
  assumes "0 \<le> INTERVAL_SEC" and "INTERVAL_SEC \<le> 9223372036" and "sleep_raises w = None"
  shows "fst (loop_body INTERVAL_SEC w) =
           SpanStart ''fetch_pokemon_loop'' # fst (work_unit w) @ [Sleep INTERVAL_SEC, SpanEnd] \<and>
         sleeps (fst (work_unit w)) = [] \<and>
         sleeps (fst (loop_body INTERVAL_SEC w)) = [INTERVAL_SEC] \<and>
         (list_all (\<lambda>w. snd (work_unit w) = None \<and> sleep_raises w = None) ws \<longrightarrow>
            snd (while_True INTERVAL_SEC ws) = None \<and>
            sleeps (fst (while_True INTERVAL_SEC ws)) = replicate (length ws) INTERVAL_SEC)"
proof -
  have slept: "sleep INTERVAL_SEC (sleep_raises w) = ([Sleep INTERVAL_SEC], None)"
    unfolding assms(3) by (rule sleep_returns [OF assms(1) assms(2)])
  have shape: "fst (loop_body INTERVAL_SEC w) =
      SpanStart ''fetch_pokemon_loop'' # fst (work_unit w) @ [Sleep INTERVAL_SEC, SpanEnd]"
    by (simp add: loop_body_trace slept)
  have quiet: "sleeps (fst (work_unit w)) = []"
    using work_unit_quiet [of w] by simp
  have once: "sleeps (fst (loop_body INTERVAL_SEC w)) = [INTERVAL_SEC]"
    by (simp add: shape sleeps_append quiet)
  from shape quiet once while_True_all_caught [OF assms(1) assms(2), of ws] show ?thesis
    by simp
qed

theorem sleep_after_every_work_unit_witness:
  "(0::int) \<le> 30 \<and> (30::int) \<le> 9223372036 \<and> sleep_raises uncaught_env = None \<and>
   snd (work_unit uncaught_env) = Some (PyExc False ''KeyboardInterrupt'' []) \<and>
   fst (loop_body 30 uncaught_env) =
     SpanStart ''fetch_pokemon_loop'' # fst (work_unit uncaught_env) @ [Sleep 30, SpanEnd] \<and>
   sleeps (fst (loop_body 30 uncaught_env)) = [30] \<and>
   list_all (\<lambda>w. snd (work_unit w) = None \<and> sleep_raises w = None)
     [timeout_env, not_found_env, pikachu_env] \<and>
   snd (while_True 30 [timeout_env, not_found_env, pikachu_env]) = None \<and>
   sleeps (fst (while_True 30 [timeout_env, not_found_env, pikachu_env])) = [30, 30, 30]"
proof -
  have h1: "(0::int) \<le> 30"
    by simp
  have h2: "(30::int) \<le> 9223372036"
    by simp
  have h3: "sleep_raises uncaught_env = None"
    by (simp add: uncaught_env_def)
  have u: "snd (work_unit uncaught_env) = Some (PyExc False ''KeyboardInterrupt'' [])"
    by (simp add: uncaught_env_def work_unit_def try_block_def Let_def)
  have all: "list_all (\<lambda>w. snd (work_unit w) = None \<and> sleep_raises w = None)
      [timeout_env, not_found_env, pikachu_env]"
    by (simp add: example_envs) (simp add: timeout_env_def not_found_env_def pikachu_env_def)
  have rep: "replicate (length [timeout_env, not_found_env, pikachu_env]) (30::int) = [30, 30, 30]"
    by (simp add: numeral_3_eq_3)
  note inst =
    sleep_after_every_work_unit
      [OF h1 h2 h3, of "[timeout_env, not_found_env, pikachu_env]"]
  from inst all
  have loop: "snd (while_True 30 [timeout_env, not_found_env, pikachu_env]) = None \<and>
      sleeps (fst (while_True 30 [timeout_env, not_found_env, pikachu_env])) =
        replicate (length [timeout_env, not_found_env, pikachu_env]) 30"
    by blast
  then have three: "sleeps (fst (while_True 30 [timeout_env, not_found_env, pikachu_env])) = [30, 30, 30]"
    unfolding rep by (rule conjunct2)
  from h1 h2 h3 u all inst loop three show ?thesis
    by blast
qed

text \<open>
  Claim C9: the span opened at the start of a poller Work Unit execution is closed on
  every exit path of that execution. For every interval and every answer of the outside
  world, the loop body's trace is the span start, calls that neither start nor end a
  span, and the span end; no span is open after a loop body, nor after any run of the
  loop.
\<close>

theorem span_closed_on_every_path:
  "fst (loop_body INTERVAL_SEC w) =
     SpanStart ''fetch_pokemon_loop'' #
       (fst (work_unit w) @ fst (sleep INTERVAL_SEC (sleep_raises w))) @ [SpanEnd] \<and>
   \<not> list_ex is_span_event (fst (work_unit w) @ fst (sleep INTERVAL_SEC (sleep_raises w))) \<and>
   open_spans (fst (loop_body INTERVAL_SEC w)) 0 = Some 0 \<and>
   open_spans (fst (while_True INTERVAL_SEC ws)) 0 = Some 0"
proof -
  have shape: "fst (loop_body INTERVAL_SEC w) =
      SpanStart ''fetch_pokemon_loop'' #
        (fst (work_unit w) @ fst (sleep INTERVAL_SEC (sleep_raises w))) @ [SpanEnd]"
    by (simp add: loop_body_trace)
  have inside:
    "\<not> list_ex is_span_event (fst (work_unit w) @ fst (sleep INTERVAL_SEC (sleep_raises w)))"
    using work_unit_quiet [of w] by (simp add: sleep_quiet)
  have one: "open_spans (fst (loop_body INTERVAL_SEC w)) 0 = Some 0"
    by (rule open_spans_loop_body)
  have run: "open_spans (fst (while_True INTERVAL_SEC ws)) 0 = Some 0"
    by (rule open_spans_while_True)
  from shape inside one run show ?thesis
    by blast
qed

section \<open>The identifier of an execution\<close>

text \<open>
  Claim C10, as stated: the chosen identifier, as a string, is the value used in the span
  attribute, the fetched URL and every counter label. The span attribute is not a
  string: with the identifier 25 the attribute \<^verbatim>\<open>pokemon.id.attempted\<close> holds the integer
  25, not the string \<^verbatim>\<open>"25"\<close>.
\<close>

theorem attempted_id_attribute_is_integer:
  "randint 1 300 (entropy pikachu_env) = 25 \<and>
   map_of (span_attributes (fst (loop_body 30 pikachu_env)) []) ''pokemon.id.attempted'' =
     Some (PInt 25) \<and>
   map_of (span_attributes (fst (loop_body 30 pikachu_env)) []) ''pokemon.id.attempted'' \<noteq>
     Some (PStr (str_int 25))"
proof -
  have i: "randint 1 300 (entropy pikachu_env) = 25"
    by (simp add: pikachu_env_def randint_def)
  from work_unit_identifier [of pikachu_env] i show ?thesis
    by (simp add: loop_body_reads)
qed

text \<open>
  Claim C10, amended: in every poller Work Unit execution the target identifier is an
  integer in the inclusive range 1 to 300; the span attribute \<^verbatim>\<open>pokemon.id.attempted\<close>
  holds that integer, and its decimal string is what the fetched URL ends with and what
  every counter increment of that execution carries under the label \<^verbatim>\<open>pokemon.id\<close>.
  Before selection the identifier holds the sentinel value 0, and the exception path
  entered with it reports the label \<^verbatim>\<open>"0"\<close>.
\<close>

theorem one_identifier_per_execution:
  "1 \<le> randint 1 300 (entropy w) \<and> randint 1 300 (entropy w) \<le> 300 \<and>
   fst (try_block w initial_pokemon_id) = randint 1 300 (entropy w) \<and>
   map_of (span_attributes (fst (loop_body INTERVAL_SEC w)) []) ''pokemon.id.attempted'' =
     Some (PInt (randint 1 300 (entropy w))) \<and>
   requests (fst (loop_body INTERVAL_SEC w)) =
     [(''https://pokeapi.co/api/v2/pokemon/'' @ str_int (randint 1 300 (entropy w)), 5)] \<and>
   list_all (\<lambda>labels. map_of labels ''pokemon.id'' = Some (PStr (str_int (randint 1 300 (entropy w)))))
     (counter_labels (fst (loop_body INTERVAL_SEC w))) \<and>
   initial_pokemon_id = 0 \<and>
   counter_labels (except_block initial_pokemon_id e) =
     [[(''pokemon.id'', PStr ''0''), (''exception.type'', PStr (type_name e))]]"
  using randint_1_300 [of "entropy w"] work_unit_identifier [of w]
  by (simp add: loop_body_reads try_block_pokemon_id except_block_summary str_int_0
      initial_pokemon_id_def del: append.simps)

section \<open>The catcher's route and view\<close>

lemma int_converter_digits:
  assumes "value \<noteq> []" and "list_all isdigit value"
    and "max_str_digits = 0 \<or> length value \<le> max_str_digits"
  shows "int_converter max_str_digits value = Matched (int_of_digits value)"
  using assms by (auto simp add: int_converter_def)

text \<open>
  Every segment of decimal digits within the limit reaches the view, leading zeros
  included, with the number the digits denote.
\<close>

lemma get_catch_digits:
  assumes "value \<noteq> []" and "list_all isdigit value"
    and "max_str_digits = 0 \<or> length value \<le> max_str_digits"
  shows "get_catch max_str_digits value random = Inr (catch (int_of_digits value) random)"
  by (simp add: get_catch_def int_converter_digits [OF assms])

lemma str_int_minus_1: "str_int (- 1) = ''-1''"
  by (simp add: str_int_def digits10.simps)

text \<open>
  Claim C5, as stated: for every integer path parameter the request returns status 200
  with the JSON body. The route declares the parameter with the \<^verbatim>\<open>int\<close> converter, which
  accepts unsigned decimal digits only: \<^verbatim>\<open>GET /catch/-1\<close> is answered 404 with no JSON
  body and the view is not called. Under the default limit of 4300 digits an id of 4301
  digits is not converted either: \<^verbatim>\<open>int\<close> raises and no response comes from the view.
\<close>

theorem signed_id_is_not_routed:
  "str_int (- 1) = ''-1'' \<and>
   get_catch 4300 ''-1'' (1 / 4) = Inr (\<lparr>http_status = 404, json_body = PNone\<rparr>, []) \<and>
   list_all isdigit (replicate 4301 CHR ''1'') \<and>
   isl (get_catch 4300 (replicate 4301 CHR ''1'') (1 / 4))"
proof -
  have signed: "get_catch 4300 ''-1'' (1 / 4) = Inr (\<lparr>http_status = 404, json_body = PNone\<rparr>, [])"
    by (simp add: get_catch_def int_converter_def isdigit_def)
  have digits: "list_all isdigit (replicate 4301 CHR ''1'')"
    by (simp add: list_all_iff isdigit_def)
  then have "int_converter 4300 (replicate 4301 CHR ''1'') =
      Unhandled (PyExc True ''ValueError''
        (''Exceeds the limit ('' @ str_int (int 4300)
         @ '' digits) for integer string conversion: value has ''
         @ str_int (int (length (replicate 4301 CHR ''1'')))
         @ '' digits; use sys.set_int_max_str_digits() to increase the limit''))"
    by (simp add: int_converter_def)
  then have long: "isl (get_catch 4300 (replicate 4301 CHR ''1'') (1 / 4))"
    by (simp add: get_catch_def)
  from str_int_minus_1 signed digits long show ?thesis
    by blast
qed

text \<open>
  Claim C5, amended: for every non-negative integer id whose decimal form is within the
  interpreter's limit on integer strings, a request \<^verbatim>\<open>GET /catch/<id>\<close> returns status 200
  with the JSON body \<^verbatim>\<open>{"pokemon_id": id, "caught": b}\<close> where \<open>b\<close> is a boolean; the returned
  \<^verbatim>\<open>pokemon_id\<close> equals the path parameter, and the view always returns: it has no error
  path.
\<close>

theorem get_catch_returns_id_and_boolean:
  assumes "max_str_digits = 0 \<or> length (str_int (int n)) \<le> max_str_digits"
  shows "get_catch max_str_digits (str_int (int n)) random = Inr (catch (int n) random) \<and>
         fst (catch (int n) random) =
           \<lparr>http_status = 200,
            json_body = PDict [(''pokemon_id'', PInt (int n)),
                               (''caught'', PBool (random < 1 / 2))]\<rparr> \<and>
         dict_get (json_body (fst (catch (int n) random))) ''pokemon_id'' PNone =
           Inr (PInt (int n)) \<and>
         (\<exists>b. dict_get (json_body (fst (catch (int n) random))) ''caught'' PNone =
                Inr (PBool b))"
proof -
  have shape: "str_int (int n) \<noteq> []" "list_all isdigit (str_int (int n))"
    using digits10_shape [of n] by (simp_all add: str_int_nat)
  have readback: "int_of_digits (str_int (int n)) = int n"
    by (simp add: str_int_nat int_of_digits_digits10)
  have routed: "get_catch max_str_digits (str_int (int n)) random = Inr (catch (int n) random)"
    using get_catch_digits [OF shape assms, of random] by (simp add: readback)
  have view: "fst (catch (int n) random) =
      \<lparr>http_status = 200,
       json_body = PDict [(''pokemon_id'', PInt (int n)),
                          (''caught'', PBool (random < 1 / 2))]\<rparr>"
    by (simp add: catch_def jsonify_def Let_def)
  have fields:
    "dict_get (json_body (fst (catch (int n) random))) ''pokemon_id'' PNone = Inr (PInt (int n)) \<and>
     (\<exists>b. dict_get (json_body (fst (catch (int n) random))) ''caught'' PNone = Inr (PBool b))"
    by (simp add: view dict_get_def)
  from routed view fields show ?thesis
    by blast
qed

theorem get_catch_returns_id_and_boolean_witness:
  "((4300::nat) = 0 \<or> length (str_int (int 7)) \<le> 4300) \<and>
   str_int (int 7) = ''7'' \<and>
   get_catch 4300 (str_int (int 7)) (1 / 4) = Inr (catch (int 7) (1 / 4)) \<and>
   fst (catch (int 7) (1 / 4)) =
     \<lparr>http_status = 200,
      json_body = PDict [(''pokemon_id'', PInt (int 7)),
                         (''caught'', PBool ((1 / 4 :: real) < 1 / 2))]\<rparr> \<and>
   dict_get (json_body (fst (catch (int 7) (1 / 4)))) ''pokemon_id'' PNone = Inr (PInt (int 7))"
proof -
  have seven: "str_int (int 7) = ''7''"
    by (simp add: str_int_def digits10.simps)
  have h: "(4300::nat) = 0 \<or> length (str_int (int 7)) \<le> 4300"
    by (simp add: str_int_def digits10.simps)
  from get_catch_returns_id_and_boolean [OF h, of "1 / 4"] h seven show ?thesis
    by blast
qed

end
